theory Spec2Isabelle
  imports Complex_Main
begin

section \<open>JavaScript values as the registry builder sees them\<close>

text \<open>
  A string of the language is the sequence of its UTF-16 code units, each a number.
  \<open>str\<close> gives the string of a literal of the theory, whose characters are the code
  units up to U+00FF.
\<close>

type_synonym jstring = "nat list"

definition str :: "string \<Rightarrow> jstring" where
  "str s = map of_char s"

text \<open>
  \<^verbatim>\<open>scripts/build-registry.js\<close> works on the values that \<^verbatim>\<open>JSON.parse\<close> produces
  (and on \<^verbatim>\<open>undefined\<close>, the result of reading a property that is not there).
  A number is an IEEE double: not-a-number, an infinity (an overflowing literal such as
  \<^verbatim>\<open>1e999\<close>), or a finite value, which is a rational; both zeros are \<open>Finite 0\<close>.
  An object is the list of its own properties in insertion order, each name once.
\<close>

datatype jsnum = NaN | PosInf | NegInf | Finite rat

datatype jsval =
    JUndefined
  | JNull
  | JBool bool
  | JNum jsnum
  | JStr jstring
  | JArr "jsval list"
  | JObj "(jstring \<times> jsval) list"

text \<open>
  What the script can throw or reject with: a \<^verbatim>\<open>TypeError\<close> (of the language, or
  of \<^verbatim>\<open>https.request\<close> when it refuses its argument), the \<^verbatim>\<open>Error\<close> of
  \<^verbatim>\<open>searchRepos\<close> (\<^verbatim>\<open>GitHub API error: <status>\<close>), the error event of a request,
  with its message, and the system error of a call of \<^verbatim>\<open>fs\<close>, with its code
  (\<^verbatim>\<open>EACCES\<close>, \<^verbatim>\<open>ENOSPC\<close>, ...).
\<close>

datatype js_error = TypeError | GitHubApiError nat | RequestError jstring | SystemError jstring

text \<open>\<^verbatim>\<open>!v\<close> is \<open>\<not> truthy v\<close>.\<close>

fun truthy :: "jsval \<Rightarrow> bool" where
  "truthy JUndefined = False"
| "truthy JNull = False"
| "truthy (JBool b) = b"
| "truthy (JNum NaN) = False"
| "truthy (JNum PosInf) = True"
| "truthy (JNum NegInf) = True"
| "truthy (JNum (Finite q)) = (q \<noteq> 0)"
| "truthy (JStr s) = (s \<noteq> [])"
| "truthy (JArr xs) = True"
| "truthy (JObj kvs) = True"

fun typeof :: "jsval \<Rightarrow> jstring" where
  "typeof JUndefined = str ''undefined''"
| "typeof JNull = str ''object''"
| "typeof (JBool b) = str ''boolean''"
| "typeof (JNum n) = str ''number''"
| "typeof (JStr s) = str ''string''"
| "typeof (JArr xs) = str ''object''"
| "typeof (JObj kvs) = str ''object''"

text \<open>
  Property read \<^verbatim>\<open>v.k\<close> and \<^verbatim>\<open>v[k]\<close>, for the property names this script reads
  (\<^verbatim>\<open>name\<close>, \<^verbatim>\<open>type\<close>, \<^verbatim>\<open>items\<close>, \<^verbatim>\<open>full_name\<close>, ...: none of them is a property of
  a built-in prototype). Reading a property of \<^verbatim>\<open>null\<close> or \<^verbatim>\<open>undefined\<close> throws; an
  object answers with its own property; every other value has no such property.
\<close>

fun js_member :: "jsval \<Rightarrow> jstring \<Rightarrow> js_error + jsval" where
  "js_member JUndefined k = Inl TypeError"
| "js_member JNull k = Inl TypeError"
| "js_member (JObj kvs) k = Inr (case map_of kvs k of Some v \<Rightarrow> v | None \<Rightarrow> JUndefined)"
| "js_member v k = Inr JUndefined"

text \<open>\<^verbatim>\<open>a || b\<close> on values.\<close>

definition js_or :: "jsval \<Rightarrow> jsval \<Rightarrow> jsval" where
  "js_or a b = (if truthy a then a else b)"

text \<open>
  \<^verbatim>\<open>xs.includes(v)\<close> for an array \<open>xs\<close> of strings: only a string is the same value
  as a string.
\<close>

fun js_includes :: "jstring list \<Rightarrow> jsval \<Rightarrow> bool" where
  "js_includes xs (JStr s) = (s \<in> set xs)"
| "js_includes xs v = False"

fun js_isArray :: "jsval \<Rightarrow> bool" where
  "js_isArray (JArr xs) = True"
| "js_isArray v = False"

text \<open>
  The conversion to a string that a template literal \<^verbatim>\<open>`${v}`\<close> performs. The text of
  a number is the runtime's (\<open>ns\<close>). An array is joined with commas, \<^verbatim>\<open>null\<close> and
  \<^verbatim>\<open>undefined\<close> elements giving the empty string. A parsed object is
  \<^verbatim>\<open>[object Object]\<close>, unless it has an own property \<^verbatim>\<open>toString\<close>: that one is not
  callable, \<^verbatim>\<open>valueOf\<close> does not give a primitive either, and the conversion throws.
\<close>

fun to_str :: "(jsnum \<Rightarrow> jstring) \<Rightarrow> jsval \<Rightarrow> js_error + jstring"
  and join_str :: "(jsnum \<Rightarrow> jstring) \<Rightarrow> jsval list \<Rightarrow> js_error + jstring" where
  "to_str ns JUndefined = Inr (str ''undefined'')"
| "to_str ns JNull = Inr (str ''null'')"
| "to_str ns (JBool b) = Inr (if b then str ''true'' else str ''false'')"
| "to_str ns (JNum n) = Inr (ns n)"
| "to_str ns (JStr s) = Inr s"
| "to_str ns (JArr xs) = join_str ns xs"
| "to_str ns (JObj kvs) =
     (if (str ''toString'') \<in> set (map fst kvs) then Inl TypeError else Inr (str ''[object Object]''))"
| "join_str ns [] = Inr []"
| "join_str ns (x # xs) =
     (case (if x = JUndefined \<or> x = JNull then Inr [] else to_str ns x) of
        Inl e \<Rightarrow> Inl e
      | Inr a \<Rightarrow>
          (if xs = [] then Inr a
           else (case join_str ns xs of Inl e \<Rightarrow> Inl e | Inr b \<Rightarrow> Inr (a @ str '','' @ b))))"

text \<open>Sequencing of a computation that may throw.\<close>

definition bindE :: "js_error + 'a \<Rightarrow> ('a \<Rightarrow> js_error + 'b) \<Rightarrow> js_error + 'b" where
  "bindE m f = (case m of Inl e \<Rightarrow> Inl e | Inr v \<Rightarrow> f v)"

section \<open>The manifest validator\<close>

definition REQUIRED_FIELDS :: "jstring list" where
  "REQUIRED_FIELDS = [str ''name'', str ''version'', str ''author'', str ''type'', str ''entry'', str ''permissions'']"

definition VALID_TYPES :: "jstring list" where
  "VALID_TYPES = [str ''js'', str ''wasm'']"

definition VALID_CATEGORIES :: "jstring list" where
  "VALID_CATEGORIES = [str ''audio'', str ''ui'', str ''lyrics'', str ''library'', str ''utility'']"

text \<open>The object \<^verbatim>\<open>{ valid, error }\<close> that \<^verbatim>\<open>validateManifest\<close> returns.\<close>

record validation =
  valid :: bool
  error :: "jstring option"

definition accepted :: validation where
  "accepted = \<lparr>valid = True, error = None\<rparr>"

definition rejected :: "jstring \<Rightarrow> validation" where
  "rejected msg = \<lparr>valid = False, error = Some msg\<rparr>"

text \<open>
  The loop \<^verbatim>\<open>for (const field of REQUIRED_FIELDS) if (!manifest[field]) return ...\<close>:
  the first field, in the order of the list, whose value is falsy.
\<close>

fun first_missing :: "jsval \<Rightarrow> jstring list \<Rightarrow> js_error + jstring option" where
  "first_missing manifest [] = Inr None"
| "first_missing manifest (field # rest) =
     (case js_member manifest field of
        Inl e \<Rightarrow> Inl e
      | Inr v \<Rightarrow> if \<not> truthy v then Inr (Some field) else first_missing manifest rest)"

definition validateManifest :: "(jsnum \<Rightarrow> jstring) \<Rightarrow> jsval \<Rightarrow> js_error + validation" where
  "validateManifest ns manifest =
     (if \<not> truthy manifest \<or> typeof manifest \<noteq> str ''object'' then Inr (rejected (str ''Invalid JSON''))
      else bindE (first_missing manifest REQUIRED_FIELDS) (\<lambda>missing.
        case missing of
          Some field \<Rightarrow> Inr (rejected (str ''Missing required field: '' @ field))
        | None \<Rightarrow>
      bindE (js_member manifest (str ''type'')) (\<lambda>ty.
        if \<not> js_includes VALID_TYPES ty
        then bindE (to_str ns ty) (\<lambda>s. Inr (rejected (str ''Invalid type: '' @ s)))
        else
      bindE (js_member manifest (str ''permissions'')) (\<lambda>perms.
        if \<not> js_isArray perms then Inr (rejected (str ''Permissions must be an array''))
        else
      bindE (js_member manifest (str ''category'')) (\<lambda>cat.
        if truthy cat \<and> \<not> js_includes VALID_CATEGORIES cat
        then bindE (to_str ns cat) (\<lambda>s. Inr (rejected (str ''Invalid category: '' @ s)))
        else Inr accepted)))))"

section \<open>Requests, the console and the file system\<close>

text \<open>
  The argument of \<^verbatim>\<open>https.request\<close>. The value of a header is a string, or
  \<^verbatim>\<open>undefined\<close> (\<open>None\<close>).
\<close>

record options =
  hostname :: jstring
  path :: jstring
  headers :: "(jstring \<times> jstring option) list"

text \<open>
  \<^verbatim>\<open>https.request\<close> throws a \<^verbatim>\<open>TypeError\<close>, before anything is sent, when the
  path has a code unit outside U+0021..U+00FF, when the value of a header is
  \<^verbatim>\<open>undefined\<close>, and when it has a code unit other than a tab, U+0020..U+007E and
  U+0080..U+00FF. (The host and the names of the headers are constants of the script,
  which it accepts.)
\<close>

definition path_unit :: "nat \<Rightarrow> bool" where
  "path_unit u = (33 \<le> u \<and> u \<le> 255)"

definition header_unit :: "nat \<Rightarrow> bool" where
  "header_unit u = (u = 9 \<or> (32 \<le> u \<and> u \<le> 126) \<or> (128 \<le> u \<and> u \<le> 255))"

fun header_value :: "jstring option \<Rightarrow> bool" where
  "header_value None = False"
| "header_value (Some v) = list_all header_unit v"

definition request_accepted :: "options \<Rightarrow> bool" where
  "request_accepted opts =
     (list_all path_unit (path opts) \<and> list_all header_value (map snd (headers opts)))"

text \<open>
  What a request that was sent ends with: the \<^verbatim>\<open>error\<close> event with its message, or
  a complete response, its status code and its body. The body is given as
  \<^verbatim>\<open>JSON.parse\<close> sees it: the value it parses to, or the raw text when
  \<^verbatim>\<open>JSON.parse\<close> throws. (A request that ends with neither leaves the promise
  pending: the script has no timeout and goes no further. Such a run returns nothing and
  is not among the runs described here.)
\<close>

datatype body = Parsed jsval | Unparsable jstring

datatype raw_response = ErrorEvent jstring | Response nat body

text \<open>The object \<^verbatim>\<open>{ status, data }\<close> that \<^verbatim>\<open>httpsGet\<close> resolves with.\<close>

record response =
  status :: nat
  data :: jsval

text \<open>
  The lines written with \<^verbatim>\<open>console.log\<close>, one constructor for each template of the
  script, with the interpolated texts.
\<close>

datatype log_line =
    Searching jstring
  | Found jstring
  | Checking jstring
  | NoPluginJson
  | InvalidManifest jstring
  | ValidPlugin jstring
  | ErrorLine js_error
  | Built nat
  | WrittenTo jstring

text \<open>
  The calls of \<^verbatim>\<open>fs\<close>, whether they return or throw. \<open>WriteFileSync p v\<close> is
  \<^verbatim>\<open>fs.writeFileSync(p, JSON.stringify(v, null, 2))\<close>; \<open>MkdirSync d\<close> is
  \<^verbatim>\<open>fs.mkdirSync(d, { recursive: true })\<close>. \<open>RenameSync a b\<close> is
  \<^verbatim>\<open>fs.renameSync(a, b)\<close>, the call that moves a file into place: the script does
  not make it, and it is here so that a property can say so.
\<close>

datatype fs_call =
    ExistsSync jstring
  | MkdirSync jstring
  | WriteFileSync jstring jsval
  | RenameSync jstring jstring

text \<open>
  What the script runs in. The remote side answers a request knowing every request made
  before it (\<open>https_request\<close>), so its answers may change during a build.
  \<open>OUTPUT_PATH\<close> is \<^verbatim>\<open>path.join(__dirname, '..', 'registry', 'main', 'registry.json')\<close>
  and \<open>outputDir\<close> is \<^verbatim>\<open>path.dirname(OUTPUT_PATH)\<close>. \<open>fs_existsSync\<close> is the file
  system when the build starts; \<open>fs_mkdirSync\<close> and \<open>fs_writeFileSync\<close> say, for the
  path of the call, whether the call returns (\<open>None\<close>) or throws, and with which code.
\<close>

record env =
  https_request :: "options list \<Rightarrow> options \<Rightarrow> raw_response"
  Number_toString :: "jsnum \<Rightarrow> jstring"
  GITHUB_TOKEN :: "jstring option"
  toISOString_now :: jstring
  OUTPUT_PATH :: jstring
  outputDir :: jstring
  fs_existsSync :: "jstring \<Rightarrow> bool"
  fs_mkdirSync :: "jstring \<Rightarrow> jstring option"
  fs_writeFileSync :: "jstring \<Rightarrow> jstring option"

text \<open>The effects of a run so far: requests sent, lines logged, calls of \<^verbatim>\<open>fs\<close>.\<close>

record state =
  requests :: "options list"
  console :: "log_line list"
  fs_calls :: "fs_call list"

definition console_log :: "log_line \<Rightarrow> state \<Rightarrow> state" where
  "console_log l s = s\<lparr>console := console s @ [l]\<rparr>"

definition fs_do :: "fs_call \<Rightarrow> state \<Rightarrow> state" where
  "fs_do c s = s\<lparr>fs_calls := fs_calls s @ [c]\<rparr>"

definition GITHUB_API :: jstring where
  "GITHUB_API = str ''api.github.com''"

definition TOPIC :: jstring where
  "TOPIC = str ''audion-plugins''"

section \<open>The fetcher\<close>

text \<open>
  One request. When \<^verbatim>\<open>https.request\<close> throws, inside the executor of the promise,
  the promise is rejected with what it throws and nothing is sent. Otherwise the promise
  is rejected on the \<^verbatim>\<open>error\<close> event and resolved at the end of the response, with
  the parsed body or, when parsing throws, its text.
\<close>

fun parse_or_text :: "body \<Rightarrow> jsval" where
  "parse_or_text (Parsed v) = v"
| "parse_or_text (Unparsable txt) = JStr txt"

definition httpsGet :: "env \<Rightarrow> options \<Rightarrow> state \<Rightarrow> (js_error + response) \<times> state" where
  "httpsGet e opts s =
     (if \<not> request_accepted opts then (Inl TypeError, s)
      else
        ((case https_request e (requests s) opts of
            ErrorEvent msg \<Rightarrow> Inl (RequestError msg)
          | Response code b \<Rightarrow> Inr \<lparr>status = code, data = parse_or_text b\<rparr>),
         s\<lparr>requests := requests s @ [opts]\<rparr>))"

definition search_options :: "env \<Rightarrow> options" where
  "search_options e =
     \<lparr>hostname = GITHUB_API,
      path = str ''/search/repositories?q=topic:'' @ TOPIC @ str ''&sort=stars&order=desc&per_page=100'',
      headers =
        [(str ''User-Agent'', Some (str ''Audion-Registry-Builder'')),
         (str ''Accept'', Some (str ''application/vnd.github.v3+json'')),
         (str ''Authorization'',
            (case GITHUB_TOKEN e of
               None \<Rightarrow> None
             | Some t \<Rightarrow> if t \<noteq> [] then Some (str ''token '' @ t) else None))]\<rparr>"

definition searchRepos :: "env \<Rightarrow> state \<Rightarrow> (js_error + jsval) \<times> state" where
  "searchRepos e s =
     (case httpsGet e (search_options e) (console_log (Searching TOPIC) s) of
        (Inl err, s1) \<Rightarrow> (Inl err, s1)
      | (Inr response, s1) \<Rightarrow>
          if status response \<noteq> 200 then (Inl (GitHubApiError (status response)), s1)
          else
            (case bindE (js_member (data response) (str ''total_count'')) (to_str (Number_toString e)) of
               Inl err \<Rightarrow> (Inl err, s1)
             | Inr n \<Rightarrow>
                 (case js_member (data response) (str ''items'') of
                    Inl err \<Rightarrow> (Inl err, console_log (Found n) s1)
                  | Inr items \<Rightarrow> (Inr (js_or items (JArr [])), console_log (Found n) s1))))"

definition manifest_path :: "(jsnum \<Rightarrow> jstring) \<Rightarrow> jsval \<Rightarrow> js_error + jstring" where
  "manifest_path ns repo =
     bindE (bindE (js_member repo (str ''full_name'')) (to_str ns)) (\<lambda>full_name.
     bindE (bindE (js_member repo (str ''default_branch'')) (to_str ns)) (\<lambda>default_branch.
       Inr (str ''/'' @ full_name @ str ''/'' @ default_branch @ str ''/plugin.json'')))"

definition manifest_options :: "jstring \<Rightarrow> options" where
  "manifest_options p =
     \<lparr>hostname = str ''raw.githubusercontent.com'',
      path = p,
      headers = [(str ''User-Agent'', Some (str ''Audion-Registry-Builder''))]\<rparr>"

definition fetchPluginManifest :: "env \<Rightarrow> jsval \<Rightarrow> state \<Rightarrow> (js_error + jsval) \<times> state" where
  "fetchPluginManifest e repo s =
     (case manifest_path (Number_toString e) repo of
        Inl err \<Rightarrow> (Inl err, s)
      | Inr p \<Rightarrow>
          (case httpsGet e (manifest_options p) s of
             (Inl err, s1) \<Rightarrow> (Inl err, s1)
           | (Inr response, s1) \<Rightarrow>
               if status response \<noteq> 200 then (Inr JNull, s1) else (Inr (data response), s1)))"

section \<open>The assembler\<close>

text \<open>
  \<^verbatim>\<open>a || b\<close> where \<open>b\<close> may throw: \<open>b\<close> is evaluated only when \<open>a\<close> is falsy.
  \<^verbatim>\<open>v?.k\<close> is \<^verbatim>\<open>undefined\<close> when \<open>v\<close> is \<^verbatim>\<open>null\<close> or \<^verbatim>\<open>undefined\<close>.
\<close>

definition js_or_else :: "jsval \<Rightarrow> js_error + jsval \<Rightarrow> js_error + jsval" where
  "js_or_else a b = (if truthy a then Inr a else b)"

definition js_optional_member :: "jsval \<Rightarrow> jstring \<Rightarrow> js_error + jsval" where
  "js_optional_member v k = (if v = JNull \<or> v = JUndefined then Inr JUndefined else js_member v k)"

definition manifest_url :: "(jsnum \<Rightarrow> jstring) \<Rightarrow> jsval \<Rightarrow> js_error + jstring" where
  "manifest_url ns repo =
     bindE (bindE (js_member repo (str ''full_name'')) (to_str ns)) (\<lambda>full_name.
     bindE (bindE (js_member repo (str ''default_branch'')) (to_str ns)) (\<lambda>default_branch.
       Inr (str ''https://raw.githubusercontent.com/'' @ full_name @ str ''/'' @ default_branch @
            str ''/plugin.json'')))"

text \<open>The object literal passed to \<^verbatim>\<open>plugins.push\<close>, its properties evaluated in order.\<close>

definition plugin_entry :: "(jsnum \<Rightarrow> jstring) \<Rightarrow> jsval \<Rightarrow> jsval \<Rightarrow> js_error + jsval" where
  "plugin_entry ns repo manifest =
     bindE (js_member manifest (str ''name'')) (\<lambda>m_name.
     bindE (js_member manifest (str ''version'')) (\<lambda>m_version.
     bindE (js_member manifest (str ''author'')) (\<lambda>m_author.
     bindE (bindE (js_member manifest (str ''description'')) (\<lambda>d. js_or_else d (Inr (JStr [])))) (\<lambda>m_description.
     bindE (js_member repo (str ''html_url'')) (\<lambda>m_repo.
     bindE (manifest_url ns repo) (\<lambda>m_manifest_url.
     bindE (js_member manifest (str ''type'')) (\<lambda>m_type.
     bindE (js_member manifest (str ''entry'')) (\<lambda>m_entry.
     bindE (js_member manifest (str ''permissions'')) (\<lambda>m_permissions.
     bindE (js_member manifest (str ''ui_slots'')) (\<lambda>m_ui_slots.
     bindE (js_member manifest (str ''icon'')) (\<lambda>m_icon.
     bindE (bindE (js_member manifest (str ''homepage'')) (\<lambda>h. js_or_else h (js_member repo (str ''html_url'')))) (\<lambda>m_homepage.
     bindE (js_member manifest (str ''category'')) (\<lambda>m_category.
     bindE (js_member manifest (str ''tags'')) (\<lambda>m_tags.
     bindE (bindE (js_member manifest (str ''license'')) (\<lambda>l.
              js_or_else l (bindE (js_member repo (str ''license'')) (\<lambda>rl. js_optional_member rl (str ''spdx_id''))))) (\<lambda>m_license.
     bindE (js_member repo (str ''html_url'')) (\<lambda>e_repo.
     bindE (manifest_url ns repo) (\<lambda>e_manifest_url.
     bindE (js_member repo (str ''stargazers_count'')) (\<lambda>e_stars.
     bindE (js_member repo (str ''updated_at'')) (\<lambda>e_lastUpdated.
       Inr (JObj
         [(str ''manifest'', JObj
            [(str ''name'', m_name),
             (str ''version'', m_version),
             (str ''author'', m_author),
             (str ''description'', m_description),
             (str ''repo'', m_repo),
             (str ''manifest_url'', JStr m_manifest_url),
             (str ''type'', m_type),
             (str ''entry'', m_entry),
             (str ''permissions'', m_permissions),
             (str ''ui_slots'', m_ui_slots),
             (str ''icon'', m_icon),
             (str ''homepage'', m_homepage),
             (str ''category'', m_category),
             (str ''tags'', m_tags),
             (str ''license'', m_license)]),
          (str ''curated'', JBool False),
          (str ''verified'', JBool False),
          (str ''repo'', e_repo),
          (str ''manifest_url'', JStr e_manifest_url),
          (str ''stars'', e_stars),
          (str ''downloads'', JNum (Finite 0)),
          (str ''lastUpdated'', e_lastUpdated)]))))))))))))))))))))"

text \<open>
  The body of \<^verbatim>\<open>try { ... }\<close> for one repository: the error it throws, if any, the
  effects up to there, and the plugins. A \<^verbatim>\<open>continue\<close> ends it without an error.
  The validator that the body calls is a parameter, \<open>validate\<close>, so that a property can
  say that the outcome does not depend on it; the script's is \<^verbatim>\<open>validateManifest\<close>.
\<close>

definition try_repo_with ::
  "((jsnum \<Rightarrow> jstring) \<Rightarrow> jsval \<Rightarrow> js_error + validation) \<Rightarrow>
   env \<Rightarrow> jsval \<Rightarrow> state \<Rightarrow> jsval list \<Rightarrow> js_error option \<times> state \<times> jsval list" where
  "try_repo_with validate e repo s plugins =
     (case fetchPluginManifest e repo s of
        (Inl err, s1) \<Rightarrow> (Some err, s1, plugins)
      | (Inr manifest, s1) \<Rightarrow>
          if \<not> truthy manifest then (None, console_log NoPluginJson s1, plugins)
          else
            (case validate (Number_toString e) manifest of
               Inl err \<Rightarrow> (Some err, s1, plugins)
             | Inr validation \<Rightarrow>
                 if \<not> valid validation
                 then (None,
                       console_log (InvalidManifest
                         (case error validation of Some msg \<Rightarrow> msg | None \<Rightarrow> str ''undefined'')) s1,
                       plugins)
                 else
                   (case bindE (js_member manifest (str ''name'')) (to_str (Number_toString e)) of
                      Inl err \<Rightarrow> (Some err, s1, plugins)
                    | Inr name \<Rightarrow>
                        (case plugin_entry (Number_toString e) repo manifest of
                           Inl err \<Rightarrow> (Some err, console_log (ValidPlugin name) s1, plugins)
                         | Inr entry \<Rightarrow>
                             (None, console_log (ValidPlugin name) s1, plugins @ [entry])))))"

definition try_repo ::
  "env \<Rightarrow> jsval \<Rightarrow> state \<Rightarrow> jsval list \<Rightarrow> js_error option \<times> state \<times> jsval list" where
  "try_repo = try_repo_with validateManifest"

text \<open>
  One turn of \<^verbatim>\<open>for (const repo of repos)\<close>. The first line is outside
  \<^verbatim>\<open>try\<close>: what it throws ends the build. What the body of \<^verbatim>\<open>try\<close> throws is
  logged by \<^verbatim>\<open>catch\<close>, and the loop goes on.
\<close>

definition check_repo ::
  "env \<Rightarrow> jsval \<Rightarrow> state \<Rightarrow> jsval list \<Rightarrow> (js_error + jsval list) \<times> state" where
  "check_repo e repo s plugins =
     (case bindE (js_member repo (str ''full_name'')) (to_str (Number_toString e)) of
        Inl err \<Rightarrow> (Inl err, s)
      | Inr full_name \<Rightarrow>
          (case try_repo e repo (console_log (Checking full_name) s) plugins of
             (None, s1, plugins1) \<Rightarrow> (Inr plugins1, s1)
           | (Some err, s1, plugins1) \<Rightarrow> (Inr plugins1, console_log (ErrorLine err) s1)))"

fun for_repos ::
  "env \<Rightarrow> jsval list \<Rightarrow> state \<Rightarrow> jsval list \<Rightarrow> (js_error + jsval list) \<times> state" where
  "for_repos e [] s plugins = (Inr plugins, s)"
| "for_repos e (repo # repos) s plugins =
     (case check_repo e repo s plugins of
        (Inl err, s1) \<Rightarrow> (Inl err, s1)
      | (Inr plugins1, s1) \<Rightarrow> for_repos e repos s1 plugins1)"

text \<open>
  What \<^verbatim>\<open>for ... of\<close> iterates: the elements of an array, the code points of a
  string (a high surrogate followed by a low one is one code point, of two code units);
  any other value that \<^verbatim>\<open>searchRepos\<close> can return is not iterable.
\<close>

fun code_points :: "jstring \<Rightarrow> jstring list" where
  "code_points [] = []"
| "code_points [u] = [[u]]"
| "code_points (u # v # us) =
     (if 55296 \<le> u \<and> u \<le> 56319 \<and> 56320 \<le> v \<and> v \<le> 57343
      then [u, v] # code_points us
      else [u] # code_points (v # us))"

fun js_iterate :: "jsval \<Rightarrow> js_error + jsval list" where
  "js_iterate (JArr xs) = Inr xs"
| "js_iterate (JStr s) = Inr (map JStr (code_points s))"
| "js_iterate v = Inl TypeError"

text \<open>
  The end of \<^verbatim>\<open>buildRegistry\<close>, from \<^verbatim>\<open>// Ensure output directory exists\<close> to the
  call of \<^verbatim>\<open>fs.writeFileSync\<close>: the error thrown, if any, and the effects. A call of
  \<^verbatim>\<open>fs\<close> that throws ends it.
\<close>

definition write_file :: "env \<Rightarrow> jsval \<Rightarrow> state \<Rightarrow> js_error option \<times> state" where
  "write_file e registry s =
     (case fs_writeFileSync e (OUTPUT_PATH e) of
        Some code \<Rightarrow> Some (SystemError code)
      | None \<Rightarrow> None,
      fs_do (WriteFileSync (OUTPUT_PATH e) registry) s)"

definition write_registry :: "env \<Rightarrow> jsval \<Rightarrow> state \<Rightarrow> js_error option \<times> state" where
  "write_registry e registry s =
     (if \<not> fs_existsSync e (outputDir e)
      then
        (case fs_mkdirSync e (outputDir e) of
           Some code \<Rightarrow>
             (Some (SystemError code),
              fs_do (MkdirSync (outputDir e)) (fs_do (ExistsSync (outputDir e)) s))
         | None \<Rightarrow>
             write_file e registry
               (fs_do (MkdirSync (outputDir e)) (fs_do (ExistsSync (outputDir e)) s)))
      else write_file e registry (fs_do (ExistsSync (outputDir e)) s))"

text \<open>
  The first part of \<^verbatim>\<open>buildRegistry\<close>: discovery and the loop over what it
  returned, with the plugins collected.
\<close>

definition collect_plugins :: "env \<Rightarrow> state \<Rightarrow> (js_error + jsval list) \<times> state" where
  "collect_plugins e s =
     (case searchRepos e s of
        (Inl err, s1) \<Rightarrow> (Inl err, s1)
      | (Inr repos, s1) \<Rightarrow>
          (case js_iterate repos of
             Inl err \<Rightarrow> (Inl err, s1)
           | Inr items \<Rightarrow> for_repos e items s1 []))"

definition registry_object :: "env \<Rightarrow> jsval list \<Rightarrow> jsval" where
  "registry_object e plugins = JObj
     [(str ''version'', JStr (str ''1.0.0'')),
      (str ''updated_at'', JStr (toISOString_now e)),
      (str ''plugins'', JArr plugins)]"

definition buildRegistry :: "env \<Rightarrow> state \<Rightarrow> (js_error + jsval) \<times> state" where
  "buildRegistry e s =
     (case collect_plugins e s of
        (Inl err, s1) \<Rightarrow> (Inl err, s1)
      | (Inr plugins, s1) \<Rightarrow>
          (case write_registry e (registry_object e plugins) s1 of
             (Some err, s2) \<Rightarrow> (Inl err, s2)
           | (None, s2) \<Rightarrow>
               (Inr (registry_object e plugins),
                console_log (WrittenTo (OUTPUT_PATH e))
                  (console_log (Built (length plugins)) s2))))"

definition initial :: state where
  "initial = \<lparr>requests = [], console = [], fs_calls = []\<rparr>"

text \<open>
  The value of \<^verbatim>\<open>v.k\<close> where the read does not throw: for stating properties of
  objects.
\<close>

definition js_get :: "jsval \<Rightarrow> jstring \<Rightarrow> jsval" where
  "js_get v k = (case js_member v k of Inl err \<Rightarrow> JUndefined | Inr x \<Rightarrow> x)"

section \<open>Concrete inputs\<close>

text \<open>
  The text of the numbers that the examples below convert to a string: 101, 42, 2, 1
  and 0.
\<close>

definition fx_num :: "jsnum \<Rightarrow> jstring" where
  "fx_num n =
     (if n = Finite 101 then str ''101'' else if n = Finite 42 then str ''42''
      else if n = Finite 2 then str ''2'' else if n = Finite 1 then str ''1'' else str ''0'')"

text \<open>The manifest of the end-to-end scenario.\<close>

definition acme_manifest :: jsval where
  "acme_manifest = JObj
     [(str ''name'', JStr (str ''My Plugin'')),
      (str ''version'', JStr (str ''1.0.0'')),
      (str ''author'', JStr (str ''Acme'')),
      (str ''type'', JStr (str ''js'')),
      (str ''entry'', JStr (str ''index.js'')),
      (str ''permissions'', JArr [JStr (str ''player:read'')])]"

text \<open>A manifest with an empty version and no entry.\<close>

definition two_missing :: jsval where
  "two_missing = JObj
     [(str ''name'', JStr (str ''My Plugin'')),
      (str ''version'', JStr []),
      (str ''author'', JStr (str ''Acme'')),
      (str ''type'', JStr (str ''js'')),
      (str ''permissions'', JArr [])]"

text \<open>
  A manifest of an unknown type, with every required field, permissions that are not an
  array and an unknown category; and one of an unknown type that has no name.
\<close>

definition native_plugin :: jsval where
  "native_plugin = JObj
     [(str ''name'', JStr (str ''My Plugin'')),
      (str ''version'', JStr (str ''1.0.0'')),
      (str ''author'', JStr (str ''Acme'')),
      (str ''type'', JStr (str ''native'')),
      (str ''entry'', JStr (str ''plugin.so'')),
      (str ''permissions'', JStr (str ''player:read'')),
      (str ''category'', JStr (str ''games''))]"

definition native_unnamed :: jsval where
  "native_unnamed = JObj
     [(str ''version'', JStr (str ''1.0.0'')),
      (str ''author'', JStr (str ''Acme'')),
      (str ''type'', JStr (str ''native'')),
      (str ''entry'', JStr (str ''plugin.so'')),
      (str ''permissions'', JArr [JStr (str ''player:read'')])]"

text \<open>The scenario's manifest with a category added.\<close>

definition with_category :: "jsval \<Rightarrow> jsval" where
  "with_category c = JObj
     [(str ''name'', JStr (str ''My Plugin'')),
      (str ''version'', JStr (str ''1.0.0'')),
      (str ''author'', JStr (str ''Acme'')),
      (str ''type'', JStr (str ''js'')),
      (str ''entry'', JStr (str ''index.js'')),
      (str ''permissions'', JArr [JStr (str ''player:read'')]),
      (str ''category'', c)]"

text \<open>
  Two repository descriptors as the search endpoint lists them: the repository of the
  end-to-end scenario, and one that carries the topic and has no license.
\<close>

definition acme_repo :: jsval where
  "acme_repo = JObj
     [(str ''full_name'', JStr (str ''acme/my-plugin'')),
      (str ''default_branch'', JStr (str ''main'')),
      (str ''html_url'', JStr (str ''https://github.com/acme/my-plugin'')),
      (str ''license'', JObj [(str ''spdx_id'', JStr (str ''MIT''))]),
      (str ''stargazers_count'', JNum (Finite 42)),
      (str ''updated_at'', JStr (str ''2024-04-30T12:00:00Z''))]"

definition bare_repo :: jsval where
  "bare_repo = JObj
     [(str ''full_name'', JStr (str ''acme/no-manifest'')),
      (str ''default_branch'', JStr (str ''main'')),
      (str ''html_url'', JStr (str ''https://github.com/acme/no-manifest'')),
      (str ''license'', JNull),
      (str ''stargazers_count'', JNum (Finite 1)),
      (str ''updated_at'', JStr (str ''2024-03-01T08:30:00Z''))]"

text \<open>The registry entry of the scenario.\<close>

definition acme_entry :: jsval where
  "acme_entry = JObj
     [(str ''manifest'', JObj
        [(str ''name'', JStr (str ''My Plugin'')),
         (str ''version'', JStr (str ''1.0.0'')),
         (str ''author'', JStr (str ''Acme'')),
         (str ''description'', JStr []),
         (str ''repo'', JStr (str ''https://github.com/acme/my-plugin'')),
         (str ''manifest_url'',
            JStr (str ''https://raw.githubusercontent.com/acme/my-plugin/main/plugin.json'')),
         (str ''type'', JStr (str ''js'')),
         (str ''entry'', JStr (str ''index.js'')),
         (str ''permissions'', JArr [JStr (str ''player:read'')]),
         (str ''ui_slots'', JUndefined),
         (str ''icon'', JUndefined),
         (str ''homepage'', JStr (str ''https://github.com/acme/my-plugin'')),
         (str ''category'', JUndefined),
         (str ''tags'', JUndefined),
         (str ''license'', JStr (str ''MIT''))]),
      (str ''curated'', JBool False),
      (str ''verified'', JBool False),
      (str ''repo'', JStr (str ''https://github.com/acme/my-plugin'')),
      (str ''manifest_url'',
         JStr (str ''https://raw.githubusercontent.com/acme/my-plugin/main/plugin.json'')),
      (str ''stars'', JNum (Finite 42)),
      (str ''downloads'', JNum (Finite 0)),
      (str ''lastUpdated'', JStr (str ''2024-04-30T12:00:00Z''))]"

definition acme_registry :: jsval where
  "acme_registry = JObj
     [(str ''version'', JStr (str ''1.0.0'')),
      (str ''updated_at'', JStr (str ''2024-05-01T00:00:00.000Z'')),
      (str ''plugins'', JArr [acme_entry])]"

text \<open>A listing of the search endpoint: the count of all matches and the items of a page.\<close>

definition listing :: "nat \<Rightarrow> jsval list \<Rightarrow> body" where
  "listing n repos = Parsed (JObj
     [(str ''total_count'', JNum (Finite (of_nat n))),
      (str ''incomplete_results'', JBool False),
      (str ''items'', JArr repos)])"

text \<open>
  A remote side that lists the two repositories, serves the manifest of
  \<^verbatim>\<open>acme/my-plugin\<close> and answers the request for the manifest of
  \<^verbatim>\<open>acme/no-manifest\<close> with \<open>r\<close>.
\<close>

definition fx_net :: "raw_response \<Rightarrow> options list \<Rightarrow> options \<Rightarrow> raw_response" where
  "fx_net r history opts =
     (if hostname opts = str ''api.github.com''
      then Response 200 (listing 2 [bare_repo, acme_repo])
      else if path opts = str ''/acme/my-plugin/main/plugin.json''
      then Response 200 (Parsed acme_manifest)
      else if path opts = str ''/acme/no-manifest/main/plugin.json''
      then r
      else Response 404 (Unparsable (str ''404: Not Found'')))"

definition fx_env :: "(options list \<Rightarrow> options \<Rightarrow> raw_response) \<Rightarrow> env" where
  "fx_env net =
     \<lparr>https_request = net,
      Number_toString = fx_num,
      GITHUB_TOKEN = Some (str ''ghp_example''),
      toISOString_now = str ''2024-05-01T00:00:00.000Z'',
      OUTPUT_PATH = str ''/work/registry/main/registry.json'',
      outputDir = str ''/work/registry/main'',
      fs_existsSync = (\<lambda>p. False),
      fs_mkdirSync = (\<lambda>p. None),
      fs_writeFileSync = (\<lambda>p. None)\<rparr>"

definition not_found :: raw_response where
  "not_found = Response 404 (Unparsable (str ''404: Not Found''))"

text \<open>The two requests of the examples.\<close>

definition fx_search :: options where
  "fx_search =
     \<lparr>hostname = str ''api.github.com'',
      path = str ''/search/repositories?q=topic:audion-plugins&sort=stars&order=desc&per_page=100'',
      headers =
        [(str ''User-Agent'', Some (str ''Audion-Registry-Builder'')),
         (str ''Accept'', Some (str ''application/vnd.github.v3+json'')),
         (str ''Authorization'', Some (str ''token ghp_example''))]\<rparr>"

definition fx_manifest_request :: "jstring \<Rightarrow> options" where
  "fx_manifest_request full_name =
     \<lparr>hostname = str ''raw.githubusercontent.com'',
      path = str ''/'' @ full_name @ str ''/main/plugin.json'',
      headers = [(str ''User-Agent'', Some (str ''Audion-Registry-Builder''))]\<rparr>"

text \<open>The run of the build against this remote side when the second manifest is not found.\<close>

definition fx_final :: state where
  "fx_final =
     \<lparr>requests = [fx_search, fx_manifest_request (str ''acme/no-manifest''),
                  fx_manifest_request (str ''acme/my-plugin'')],
      console =
        [Searching (str ''audion-plugins''), Found (str ''2''),
         Checking (str ''acme/no-manifest''), NoPluginJson,
         Checking (str ''acme/my-plugin''), ValidPlugin (str ''My Plugin''),
         Built 1, WrittenTo (str ''/work/registry/main/registry.json'')],
      fs_calls =
        [ExistsSync (str ''/work/registry/main''),
         MkdirSync (str ''/work/registry/main''),
         WriteFileSync (str ''/work/registry/main/registry.json'') acme_registry]\<rparr>"

text \<open>The scenario's manifest with no permission asked for: an empty array.\<close>

definition no_permissions :: jsval where
  "no_permissions = JObj
     [(str ''name'', JStr (str ''My Plugin'')),
      (str ''version'', JStr (str ''1.0.0'')),
      (str ''author'', JStr (str ''Acme'')),
      (str ''type'', JStr (str ''js'')),
      (str ''entry'', JStr (str ''index.js'')),
      (str ''permissions'', JArr [])]"

text \<open>
  The scenario's manifest with an empty homepage, and with a description, a homepage and
  a license.
\<close>

definition blank_homepage :: jsval where
  "blank_homepage = JObj
     [(str ''name'', JStr (str ''My Plugin'')),
      (str ''version'', JStr (str ''1.0.0'')),
      (str ''author'', JStr (str ''Acme'')),
      (str ''type'', JStr (str ''js'')),
      (str ''entry'', JStr (str ''index.js'')),
      (str ''permissions'', JArr [JStr (str ''player:read'')]),
      (str ''homepage'', JStr [])]"

definition full_manifest :: jsval where
  "full_manifest = JObj
     [(str ''name'', JStr (str ''My Plugin'')),
      (str ''version'', JStr (str ''1.0.0'')),
      (str ''author'', JStr (str ''Acme'')),
      (str ''type'', JStr (str ''js'')),
      (str ''entry'', JStr (str ''index.js'')),
      (str ''permissions'', JArr [JStr (str ''player:read'')]),
      (str ''description'', JStr (str ''Shows lyrics'')),
      (str ''homepage'', JStr (str ''https://acme.example/plugin'')),
      (str ''license'', JStr (str ''Apache-2.0''))]"





text \<open>
  A remote side that lists \<^verbatim>\<open>acme/my-plugin\<close> and resets the connection of the
  first request for its manifest; asked again, it serves the manifest.
\<close>

definition flaky_net :: "options list \<Rightarrow> options \<Rightarrow> raw_response" where
  "flaky_net history opts =
     (if hostname opts = str ''api.github.com'' then Response 200 (listing 1 [acme_repo])
      else if path opts = str ''/acme/my-plugin/main/plugin.json''
      then (if opts \<in> set history then Response 200 (Parsed acme_manifest)
            else ErrorEvent (str ''read ECONNRESET''))
      else not_found)"

definition empty_registry :: jsval where
  "empty_registry = JObj
     [(str ''version'', JStr (str ''1.0.0'')),
      (str ''updated_at'', JStr (str ''2024-05-01T00:00:00.000Z'')),
      (str ''plugins'', JArr [])]"

section \<open>Strings\<close>

lemma str_Nil [simp]: "str [] = []"
  by (simp add: str_def)

lemma str_eq_iff [simp]: "str a = str b \<longleftrightarrow> a = b"
  by (simp add: str_def inj_map_eq_map inj_on_def)

lemma str_eq_Nil [simp]: "str a = [] \<longleftrightarrow> a = []" "[] = str a \<longleftrightarrow> a = []"
  by (auto simp: str_def)

lemma str_append [simp]: "str a @ str b = str (a @ b)" "str a @ str b @ x = str (a @ b) @ x"
  by (simp_all add: str_def)

lemma list_all_str: "list_all P (str s) = list_all (\<lambda>c. P (of_char c)) s"
  by (simp add: str_def list_all_iff)

section \<open>Auxiliary facts about the validator\<close>

lemma js_member_get:
  assumes "v \<noteq> JNull" and "v \<noteq> JUndefined"
  shows "js_member v k = Inr (js_get v k)"
  using assms by (cases v) (simp_all add: js_get_def)

lemma object_not_nullish:
  assumes "truthy manifest" and "typeof manifest = str ''object''"
  shows "manifest \<noteq> JNull \<and> manifest \<noteq> JUndefined"
  using assms by (cases manifest) simp_all

lemma js_member_object:
  assumes "truthy manifest" and "typeof manifest = str ''object''"
  shows "js_member manifest k = Inr (js_get manifest k)"
  using object_not_nullish [OF assms] by (simp add: js_member_get)

lemma first_missing_find:
  assumes "truthy manifest" and "typeof manifest = str ''object''"
  shows "first_missing manifest fs = Inr (find (\<lambda>f. \<not> truthy (js_get manifest f)) fs)"
  by (induction fs) (simp_all add: js_member_object [OF assms])

text \<open>The checks of \<^verbatim>\<open>validateManifest\<close> on a document that passes the first one.\<close>

lemma validateManifest_object:
  assumes "truthy manifest" and "typeof manifest = str ''object''"
  shows "validateManifest ns manifest =
     (case find (\<lambda>f. \<not> truthy (js_get manifest f)) REQUIRED_FIELDS of
        Some field \<Rightarrow> Inr (rejected (str ''Missing required field: '' @ field))
      | None \<Rightarrow>
          if \<not> js_includes VALID_TYPES (js_get manifest (str ''type''))
          then bindE (to_str ns (js_get manifest (str ''type'')))
                 (\<lambda>s. Inr (rejected (str ''Invalid type: '' @ s)))
          else if \<not> js_isArray (js_get manifest (str ''permissions''))
          then Inr (rejected (str ''Permissions must be an array''))
          else if truthy (js_get manifest (str ''category'')) \<and>
                  \<not> js_includes VALID_CATEGORIES (js_get manifest (str ''category''))
          then bindE (to_str ns (js_get manifest (str ''category'')))
                 (\<lambda>s. Inr (rejected (str ''Invalid category: '' @ s)))
          else Inr accepted)"
  using assms
  by (simp add: validateManifest_def first_missing_find js_member_object bindE_def
           split: option.splits)

lemma validateManifest_valid:
  assumes "validateManifest ns manifest = Inr v" and "valid v"
  shows "v = accepted \<and> truthy manifest \<and> typeof manifest = str ''object''"
proof (cases "truthy manifest \<and> typeof manifest = str ''object''")
  case False
  with assms show ?thesis by (auto simp: validateManifest_def rejected_def)
next
  case True
  then have t: "truthy manifest" "typeof manifest = str ''object''" by simp_all
  from assms show ?thesis
    unfolding validateManifest_object [OF t]
    by (auto simp: bindE_def rejected_def t split: option.splits if_splits sum.splits)
qed

section \<open>Auxiliary facts about the fetcher\<close>

lemma console_log_requests: "requests (console_log l s) = requests s"
  by (simp add: console_log_def)

lemma manifest_path_full_name:
  assumes "manifest_path ns repo = Inr p"
  shows "\<exists>n. bindE (js_member repo (str ''full_name'')) (to_str ns) = Inr n"
  using assms by (auto simp: manifest_path_def bindE_def split: sum.splits)

lemma fetchPluginManifest_request:
  assumes "manifest_path (Number_toString e) repo = Inr p"
    and "request_accepted (manifest_options p)"
  shows "fetchPluginManifest e repo s =
     ((case https_request e (requests s) (manifest_options p) of
         ErrorEvent msg \<Rightarrow> Inl (RequestError msg)
       | Response code b \<Rightarrow> if code \<noteq> 200 then Inr JNull else Inr (parse_or_text b)),
      s\<lparr>requests := requests s @ [manifest_options p]\<rparr>)"
  using assms
  by (simp add: fetchPluginManifest_def httpsGet_def split: raw_response.splits)

lemma try_repo_no_manifest:
  assumes "fetchPluginManifest e repo s = (Inr v, s1)" and "\<not> truthy v"
  shows "try_repo e repo s plugins = (None, console_log NoPluginJson s1, plugins)"
  using assms by (simp add: try_repo_def try_repo_with_def)

lemma try_repo_fetch_error:
  assumes "fetchPluginManifest e repo s = (Inl err, s1)"
  shows "try_repo e repo s plugins = (Some err, s1, plugins)"
  using assms by (simp add: try_repo_def try_repo_with_def)

section \<open>Auxiliary facts about the assembler\<close>

lemma try_repo_plugins:
  assumes "try_repo e repo s plugins = (r, s', plugins')"
  shows "plugins' = plugins \<or>
         (\<exists>manifest s1 p.
            fetchPluginManifest e repo s = (Inr manifest, s1) \<and>
            validateManifest (Number_toString e) manifest = Inr accepted \<and>
            plugin_entry (Number_toString e) repo manifest = Inr p \<and>
            plugins' = plugins @ [p])"
proof (cases "fetchPluginManifest e repo s")
  case (Pair res s1)
  show ?thesis
  proof (cases res)
    case (Inl err)
    with Pair assms show ?thesis by (simp add: try_repo_def try_repo_with_def)
  next
    case (Inr manifest)
    note f = Pair [unfolded Inr]
    show ?thesis
    proof (cases "validateManifest (Number_toString e) manifest")
      case (Inl err)
      with f assms show ?thesis by (simp add: try_repo_def try_repo_with_def split: if_splits)
    next
      case v: (Inr v)
      show ?thesis
      proof (cases "truthy manifest \<and> valid v")
        case False
        with f v assms show ?thesis by (auto simp: try_repo_def try_repo_with_def split: if_splits)
      next
        case True
        with v have acc: "validateManifest (Number_toString e) manifest = Inr accepted"
          using validateManifest_valid by blast
        from True f v assms show ?thesis
          by (auto simp: try_repo_def try_repo_with_def acc split: sum.splits)
      qed
    qed
  qed
qed

lemma check_repo_plugins:
  assumes "check_repo e repo s plugins = (Inr plugins', s')"
  shows "plugins' = plugins \<or>
         (\<exists>full_name manifest s1 p.
            bindE (js_member repo (str ''full_name'')) (to_str (Number_toString e)) =
              Inr full_name \<and>
            fetchPluginManifest e repo (console_log (Checking full_name) s) = (Inr manifest, s1) \<and>
            validateManifest (Number_toString e) manifest = Inr accepted \<and>
            plugin_entry (Number_toString e) repo manifest = Inr p \<and>
            plugins' = plugins @ [p])"
proof (cases "bindE (js_member repo (str ''full_name'')) (to_str (Number_toString e))")
  case (Inl err)
  with assms show ?thesis by (simp add: check_repo_def)
next
  case (Inr full_name)
  obtain r s1 ps where t: "try_repo e repo (console_log (Checking full_name) s) plugins = (r, s1, ps)"
    by (cases "try_repo e repo (console_log (Checking full_name) s) plugins") auto
  with Inr assms have "ps = plugins'"
    by (cases r) (simp_all add: check_repo_def)
  with try_repo_plugins [OF t] Inr show ?thesis by blast
qed

lemma for_repos_plugins:
  assumes "for_repos e repos s plugins = (Inr plugins', s')"
  shows "\<exists>new. plugins' = plugins @ new \<and>
           (\<forall>p \<in> set new. \<exists>before repo after plugins0 s0 full_name manifest s1.
              repos = before @ repo # after \<and>
              for_repos e before s plugins = (Inr plugins0, s0) \<and>
              bindE (js_member repo (str ''full_name'')) (to_str (Number_toString e)) =
                Inr full_name \<and>
              fetchPluginManifest e repo (console_log (Checking full_name) s0) =
                (Inr manifest, s1) \<and>
              validateManifest (Number_toString e) manifest = Inr accepted \<and>
              plugin_entry (Number_toString e) repo manifest = Inr p)"
  using assms
proof (induction repos arbitrary: s plugins)
  case Nil
  then show ?case by simp
next
  case (Cons r rs)
  obtain res s1 where c: "check_repo e r s plugins = (res, s1)"
    by (cases "check_repo e r s plugins") auto
  with Cons.prems obtain ps where res: "res = Inr ps"
    and rest: "for_repos e rs s1 ps = (Inr plugins', s')"
    by (cases res) simp_all
  note c = c [unfolded res]
  from Cons.IH [OF rest] obtain new where new: "plugins' = ps @ new"
    and old: "\<forall>p \<in> set new. \<exists>before repo after plugins0 s0 full_name manifest s2.
        rs = before @ repo # after \<and>
        for_repos e before s1 ps = (Inr plugins0, s0) \<and>
        bindE (js_member repo (str ''full_name'')) (to_str (Number_toString e)) =
          Inr full_name \<and>
        fetchPluginManifest e repo (console_log (Checking full_name) s0) = (Inr manifest, s2) \<and>
        validateManifest (Number_toString e) manifest = Inr accepted \<and>
        plugin_entry (Number_toString e) repo manifest = Inr p"
    by blast
  have later: "\<exists>before repo after plugins0 s0 full_name manifest s2.
        r # rs = before @ repo # after \<and>
        for_repos e before s plugins = (Inr plugins0, s0) \<and>
        bindE (js_member repo (str ''full_name'')) (to_str (Number_toString e)) =
          Inr full_name \<and>
        fetchPluginManifest e repo (console_log (Checking full_name) s0) = (Inr manifest, s2) \<and>
        validateManifest (Number_toString e) manifest = Inr accepted \<and>
        plugin_entry (Number_toString e) repo manifest = Inr p" if "p \<in> set new" for p
  proof -
    from old that obtain before repo after plugins0 s0 full_name manifest s2 where h:
      "rs = before @ repo # after"
      "for_repos e before s1 ps = (Inr plugins0, s0)"
      "bindE (js_member repo (str ''full_name'')) (to_str (Number_toString e)) = Inr full_name"
      "fetchPluginManifest e repo (console_log (Checking full_name) s0) = (Inr manifest, s2)"
      "validateManifest (Number_toString e) manifest = Inr accepted"
      "plugin_entry (Number_toString e) repo manifest = Inr p"
      by blast
    have "r # rs = (r # before) @ repo # after" using h(1) by simp
    moreover have "for_repos e (r # before) s plugins = (Inr plugins0, s0)"
      using c h(2) by simp
    ultimately show ?thesis using h(3-6) by blast
  qed
  from check_repo_plugins [OF c] show ?case
  proof
    assume "ps = plugins"
    with new have "plugins' = plugins @ new" by simp
    with later show ?thesis by (intro exI [of _ new]) blast
  next
    assume "\<exists>full_name manifest s2 p.
        bindE (js_member r (str ''full_name'')) (to_str (Number_toString e)) = Inr full_name \<and>
        fetchPluginManifest e r (console_log (Checking full_name) s) = (Inr manifest, s2) \<and>
        validateManifest (Number_toString e) manifest = Inr accepted \<and>
        plugin_entry (Number_toString e) r manifest = Inr p \<and>
        ps = plugins @ [p]"
    then obtain full_name manifest s2 p where h:
      "bindE (js_member r (str ''full_name'')) (to_str (Number_toString e)) = Inr full_name"
      "fetchPluginManifest e r (console_log (Checking full_name) s) = (Inr manifest, s2)"
      "validateManifest (Number_toString e) manifest = Inr accepted"
      "plugin_entry (Number_toString e) r manifest = Inr p"
      "ps = plugins @ [p]"
      by blast
    have first: "\<exists>before repo after plugins0 s0 full_name manifest s2.
        r # rs = before @ repo # after \<and>
        for_repos e before s plugins = (Inr plugins0, s0) \<and>
        bindE (js_member repo (str ''full_name'')) (to_str (Number_toString e)) =
          Inr full_name \<and>
        fetchPluginManifest e repo (console_log (Checking full_name) s0) = (Inr manifest, s2) \<and>
        validateManifest (Number_toString e) manifest = Inr accepted \<and>
        plugin_entry (Number_toString e) repo manifest = Inr p"
    proof -
      have "r # rs = [] @ r # rs" by simp
      moreover have "for_repos e [] s plugins = (Inr plugins, s)" by simp
      ultimately show ?thesis using h(1-4) by blast
    qed
    have all: "\<exists>before repo after plugins0 s0 full_name manifest s2.
        r # rs = before @ repo # after \<and>
        for_repos e before s plugins = (Inr plugins0, s0) \<and>
        bindE (js_member repo (str ''full_name'')) (to_str (Number_toString e)) =
          Inr full_name \<and>
        fetchPluginManifest e repo (console_log (Checking full_name) s0) = (Inr manifest, s2) \<and>
        validateManifest (Number_toString e) manifest = Inr accepted \<and>
        plugin_entry (Number_toString e) repo manifest = Inr q" if "q \<in> set (p # new)" for q
    proof -
      from that consider "q = p" | "q \<in> set new" by auto
      then show ?thesis
      proof cases
        case 1
        with first show ?thesis by simp
      next
        case 2
        with later show ?thesis by simp
      qed
    qed
    have "plugins' = plugins @ p # new" using new h(5) by simp
    with all show ?thesis by (intro exI [of _ "p # new"]) blast
  qed
qed

lemma httpsGet_stateless:
  assumes "\<forall>h h' r. https_request e h r = https_request e h' r"
  shows "fst (httpsGet e opts s) = fst (httpsGet e opts s')"
proof -
  from assms have "https_request e (requests s) opts = https_request e (requests s') opts"
    by blast
  then show ?thesis by (simp add: httpsGet_def)
qed

lemma fetch_stateless:
  assumes "\<forall>h h' r. https_request e h r = https_request e h' r"
  shows "fst (fetchPluginManifest e repo s) = fst (fetchPluginManifest e repo s')"
proof (cases "manifest_path (Number_toString e) repo")
  case (Inl err)
  then show ?thesis by (simp add: fetchPluginManifest_def)
next
  case (Inr p)
  obtain r s1 where a: "httpsGet e (manifest_options p) s = (r, s1)"
    by (cases "httpsGet e (manifest_options p) s") auto
  obtain r' s1' where b: "httpsGet e (manifest_options p) s' = (r', s1')"
    by (cases "httpsGet e (manifest_options p) s'") auto
  from httpsGet_stateless [OF assms, of "manifest_options p" s s'] a b have "r' = r" by simp
  with a b Inr show ?thesis
    by (simp add: fetchPluginManifest_def split: sum.splits)
qed

lemma try_repo_stateless:
  assumes "\<forall>h h' r. https_request e h r = https_request e h' r"
  shows "fst (try_repo e repo s plugins) = fst (try_repo e repo s' plugins) \<and>
         snd (snd (try_repo e repo s plugins)) = snd (snd (try_repo e repo s' plugins))"
proof -
  obtain r s1 where a: "fetchPluginManifest e repo s = (r, s1)"
    by (cases "fetchPluginManifest e repo s") auto
  obtain r' s1' where b: "fetchPluginManifest e repo s' = (r', s1')"
    by (cases "fetchPluginManifest e repo s'") auto
  from fetch_stateless [OF assms, of repo s s'] a b have "r' = r" by simp
  with a b show ?thesis
    by (simp add: try_repo_def try_repo_with_def split: sum.splits)
qed

lemma check_repo_stateless:
  assumes "\<forall>h h' r. https_request e h r = https_request e h' r"
  shows "fst (check_repo e repo s plugins) = fst (check_repo e repo s' plugins)"
proof (cases "bindE (js_member repo (str ''full_name'')) (to_str (Number_toString e))")
  case (Inl err)
  then show ?thesis by (simp add: check_repo_def)
next
  case (Inr full_name)
  let ?a = "try_repo e repo (console_log (Checking full_name) s) plugins"
  let ?b = "try_repo e repo (console_log (Checking full_name) s') plugins"
  from try_repo_stateless [OF assms] have "fst ?a = fst ?b" "snd (snd ?a) = snd (snd ?b)"
    by blast+
  then show ?thesis using Inr
    by (cases ?a; cases ?b) (auto simp: check_repo_def split: option.splits)
qed

lemma for_repos_stateless:
  assumes "\<forall>h h' r. https_request e h r = https_request e h' r"
  shows "fst (for_repos e repos s plugins) = fst (for_repos e repos s' plugins)"
proof (induction repos arbitrary: s s' plugins)
  case Nil
  show ?case by simp
next
  case (Cons repo repos)
  obtain r s1 where a: "check_repo e repo s plugins = (r, s1)"
    by (cases "check_repo e repo s plugins") auto
  obtain r' s1' where b: "check_repo e repo s' plugins = (r', s1')"
    by (cases "check_repo e repo s' plugins") auto
  from check_repo_stateless [OF assms, of repo s plugins s'] a b have "r' = r" by simp
  with a b Cons.IH show ?case by (cases r) simp_all
qed

section \<open>Auxiliary facts about the writer\<close>

lemma httpsGet_fs: "fs_calls (snd (httpsGet e opts s)) = fs_calls s"
  by (simp add: httpsGet_def)

lemma searchRepos_fs: "fs_calls (snd (searchRepos e s)) = fs_calls s"
proof -
  obtain r s1 where a: "httpsGet e (search_options e) (console_log (Searching TOPIC) s) = (r, s1)"
    by (cases "httpsGet e (search_options e) (console_log (Searching TOPIC) s)") auto
  with httpsGet_fs [of e "search_options e" "console_log (Searching TOPIC) s"]
  have "fs_calls s1 = fs_calls s" by (simp add: console_log_def)
  with a show ?thesis
    by (simp add: searchRepos_def console_log_def split: sum.splits)
qed

lemma fetch_fs: "fs_calls (snd (fetchPluginManifest e repo s)) = fs_calls s"
proof (cases "manifest_path (Number_toString e) repo")
  case (Inl err)
  then show ?thesis by (simp add: fetchPluginManifest_def)
next
  case (Inr p)
  obtain r s1 where a: "httpsGet e (manifest_options p) s = (r, s1)"
    by (cases "httpsGet e (manifest_options p) s") auto
  with httpsGet_fs [of e "manifest_options p" s] have "fs_calls s1 = fs_calls s" by simp
  with a Inr show ?thesis
    by (simp add: fetchPluginManifest_def split: sum.splits)
qed

lemma try_repo_fs: "fs_calls (fst (snd (try_repo e repo s plugins))) = fs_calls s"
proof -
  obtain r s1 where a: "fetchPluginManifest e repo s = (r, s1)"
    by (cases "fetchPluginManifest e repo s") auto
  with fetch_fs [of e repo s] have "fs_calls s1 = fs_calls s" by simp
  with a show ?thesis
    by (simp add: try_repo_def try_repo_with_def console_log_def split: sum.splits)
qed

lemma check_repo_fs: "fs_calls (snd (check_repo e repo s plugins)) = fs_calls s"
proof (cases "bindE (js_member repo (str ''full_name'')) (to_str (Number_toString e))")
  case (Inl err)
  then show ?thesis by (simp add: check_repo_def)
next
  case (Inr full_name)
  let ?t = "try_repo e repo (console_log (Checking full_name) s) plugins"
  have "fs_calls (fst (snd ?t)) = fs_calls s"
    by (simp add: try_repo_fs console_log_def)
  then show ?thesis using Inr
    by (cases ?t) (auto simp: check_repo_def console_log_def split: option.splits)
qed

lemma for_repos_fs: "fs_calls (snd (for_repos e repos s plugins)) = fs_calls s"
proof (induction repos arbitrary: s plugins)
  case Nil
  show ?case by simp
next
  case (Cons repo repos)
  obtain r s1 where a: "check_repo e repo s plugins = (r, s1)"
    by (cases "check_repo e repo s plugins") auto
  with check_repo_fs [of e repo s plugins] have "fs_calls s1 = fs_calls s" by simp
  with a Cons.IH show ?case by (cases r) simp_all
qed

lemma collect_plugins_fs: "fs_calls (snd (collect_plugins e s)) = fs_calls s"
proof -
  obtain r s1 where sr: "searchRepos e s = (r, s1)" by (cases "searchRepos e s") auto
  with searchRepos_fs [of e s] have s1: "fs_calls s1 = fs_calls s" by simp
  show ?thesis
  proof (cases r)
    case (Inl err)
    with sr s1 show ?thesis by (simp add: collect_plugins_def)
  next
    case (Inr repos)
    with sr s1 for_repos_fs [of e _ s1 "[]"] show ?thesis
      by (simp add: collect_plugins_def split: sum.splits)
  qed
qed

section \<open>Auxiliary facts about the entries\<close>

lemma manifest_url_not_nullish:
  assumes "manifest_url ns repo = Inr u"
  shows "repo \<noteq> JNull \<and> repo \<noteq> JUndefined"
  using assms by (auto simp: manifest_url_def bindE_def)

lemma plugin_entry_object:
  assumes "manifest \<noteq> JNull" "manifest \<noteq> JUndefined" and "manifest_url ns repo = Inr u"
  shows "plugin_entry ns repo manifest = Inr (JObj
         [(str ''manifest'', JObj
            [(str ''name'', js_get manifest (str ''name'')),
             (str ''version'', js_get manifest (str ''version'')),
             (str ''author'', js_get manifest (str ''author'')),
             (str ''description'', js_or (js_get manifest (str ''description'')) (JStr [])),
             (str ''repo'', js_get repo (str ''html_url'')),
             (str ''manifest_url'', JStr u),
             (str ''type'', js_get manifest (str ''type'')),
             (str ''entry'', js_get manifest (str ''entry'')),
             (str ''permissions'', js_get manifest (str ''permissions'')),
             (str ''ui_slots'', js_get manifest (str ''ui_slots'')),
             (str ''icon'', js_get manifest (str ''icon'')),
             (str ''homepage'',
                js_or (js_get manifest (str ''homepage'')) (js_get repo (str ''html_url''))),
             (str ''category'', js_get manifest (str ''category'')),
             (str ''tags'', js_get manifest (str ''tags'')),
             (str ''license'', js_or (js_get manifest (str ''license''))
                (if js_get repo (str ''license'') = JNull \<or>
                    js_get repo (str ''license'') = JUndefined
                 then JUndefined
                 else js_get (js_get repo (str ''license'')) (str ''spdx_id'')))]),
          (str ''curated'', JBool False),
          (str ''verified'', JBool False),
          (str ''repo'', js_get repo (str ''html_url'')),
          (str ''manifest_url'', JStr u),
          (str ''stars'', js_get repo (str ''stargazers_count'')),
          (str ''downloads'', JNum (Finite 0)),
          (str ''lastUpdated'', js_get repo (str ''updated_at''))])"
proof -
  note r = manifest_url_not_nullish [OF assms(3)]
  have m: "js_member manifest k = Inr (js_get manifest k)" for k
    using assms(1,2) by (rule js_member_get)
  have p: "js_member repo k = Inr (js_get repo k)" for k
    using r by (simp add: js_member_get)
  have l: "js_optional_member (js_get repo (str ''license'')) (str ''spdx_id'') =
      Inr (if js_get repo (str ''license'') = JNull \<or> js_get repo (str ''license'') = JUndefined
           then JUndefined else js_get (js_get repo (str ''license'')) (str ''spdx_id''))"
    by (simp add: js_optional_member_def js_member_get)
  show ?thesis
    unfolding plugin_entry_def
    by (simp add: m p l assms(3) bindE_def js_or_else_def js_or_def)
qed

section \<open>The concrete inputs, evaluated\<close>

lemma fx_full_name:
  "bindE (js_member acme_repo (str ''full_name'')) (to_str fx_num) = Inr (str ''acme/my-plugin'')"
  "bindE (js_member bare_repo (str ''full_name'')) (to_str fx_num) = Inr (str ''acme/no-manifest'')"
  by (simp_all add: acme_repo_def bare_repo_def bindE_def)

lemma fx_manifest_path:
  "manifest_path fx_num acme_repo = Inr (str ''/acme/my-plugin/main/plugin.json'')"
  "manifest_path fx_num bare_repo = Inr (str ''/acme/no-manifest/main/plugin.json'')"
  by (simp_all add: acme_repo_def bare_repo_def bindE_def manifest_path_def)

lemma fx_manifest_url:
  "manifest_url fx_num acme_repo =
     Inr (str ''https://raw.githubusercontent.com/acme/my-plugin/main/plugin.json'')"
  by (simp add: acme_repo_def bindE_def manifest_url_def)

lemma fx_manifest_options:
  "manifest_options (str ''/acme/my-plugin/main/plugin.json'') =
     fx_manifest_request (str ''acme/my-plugin'')"
  "manifest_options (str ''/acme/no-manifest/main/plugin.json'') =
     fx_manifest_request (str ''acme/no-manifest'')"
  by (simp_all add: manifest_options_def fx_manifest_request_def)

lemma fx_search_options: "search_options (fx_env net) = fx_search"
  by (simp add: search_options_def fx_env_def fx_search_def GITHUB_API_def TOPIC_def)

lemma fx_accepted:
  "request_accepted fx_search"
  "request_accepted (fx_manifest_request (str ''acme/my-plugin''))"
  "request_accepted (fx_manifest_request (str ''acme/no-manifest''))"
  by (simp_all add: request_accepted_def fx_search_def fx_manifest_request_def list_all_str
        path_unit_def header_unit_def)

lemma fx_env_simps:
  "https_request (fx_env net) = net" "Number_toString (fx_env net) = fx_num"
  "OUTPUT_PATH (fx_env net) = str ''/work/registry/main/registry.json''"
  "outputDir (fx_env net) = str ''/work/registry/main''"
  "fs_existsSync (fx_env net) p = False"
  "fs_mkdirSync (fx_env net) p = None"
  "fs_writeFileSync (fx_env net) p = None"
  "toISOString_now (fx_env net) = str ''2024-05-01T00:00:00.000Z''"
  by (simp_all add: fx_env_def)

lemma fx_net_simps:
  "fx_net r h fx_search = Response 200 (listing 2 [bare_repo, acme_repo])"
  "fx_net r h (fx_manifest_request (str ''acme/my-plugin'')) = Response 200 (Parsed acme_manifest)"
  "fx_net r h (fx_manifest_request (str ''acme/no-manifest'')) = r"
  by (simp_all add: fx_net_def fx_search_def fx_manifest_request_def)

lemma fx_acme_accepted: "validateManifest fx_num acme_manifest = Inr accepted"
  by (simp add: acme_manifest_def validateManifest_def REQUIRED_FIELDS_def VALID_TYPES_def
        bindE_def)

lemma fx_accepted_more:
  "validateManifest fx_num blank_homepage = Inr accepted"
  "validateManifest fx_num full_manifest = Inr accepted"
  "validateManifest fx_num no_permissions = Inr accepted"
  by (simp_all add: blank_homepage_def full_manifest_def no_permissions_def validateManifest_def
        REQUIRED_FIELDS_def VALID_TYPES_def bindE_def)

lemma fx_acme_entry: "plugin_entry fx_num acme_repo acme_manifest = Inr acme_entry"
proof -
  have "acme_manifest \<noteq> JNull" "acme_manifest \<noteq> JUndefined"
    by (simp_all add: acme_manifest_def)
  from plugin_entry_object [OF this fx_manifest_url] show ?thesis
    by (simp add: acme_entry_def acme_manifest_def acme_repo_def js_get_def js_or_def)
qed

lemma fx_listing:
  "bindE (js_member (parse_or_text (listing n repos)) (str ''total_count'')) (to_str ns) =
     Inr (ns (Finite (of_nat n)))"
  "js_get (parse_or_text (listing n repos)) (str ''items'') = JArr repos"
  "js_member (parse_or_text (listing n repos)) (str ''items'') = Inr (JArr repos)"
  by (simp_all add: listing_def bindE_def js_get_def)

lemma fx_search_repos:
  "searchRepos (fx_env (fx_net r)) s =
     (Inr (JArr [bare_repo, acme_repo]),
      s\<lparr>requests := requests s @ [fx_search],
        console := console s @ [Searching (str ''audion-plugins''), Found (str ''2'')]\<rparr>)"
  by (simp add: searchRepos_def httpsGet_def fx_search_options fx_env_simps fx_net_simps
        fx_accepted fx_listing console_log_def js_or_def fx_num_def TOPIC_def)

lemma fx_fetch_acme:
  "fetchPluginManifest (fx_env (fx_net r)) acme_repo s =
     (Inr acme_manifest,
      s\<lparr>requests := requests s @ [fx_manifest_request (str ''acme/my-plugin'')]\<rparr>)"
  by (simp add: fetchPluginManifest_def fx_env_simps fx_manifest_path httpsGet_def
        fx_manifest_options fx_net_simps fx_accepted)

lemma fx_check_acme:
  "check_repo (fx_env (fx_net r)) acme_repo s plugins =
     (Inr (plugins @ [acme_entry]),
      s\<lparr>requests := requests s @ [fx_manifest_request (str ''acme/my-plugin'')],
        console := console s @
          [Checking (str ''acme/my-plugin''), ValidPlugin (str ''My Plugin'')]\<rparr>)"
proof -
  have n: "bindE (js_member acme_manifest (str ''name'')) (to_str fx_num) = Inr (str ''My Plugin'')"
    "truthy acme_manifest"
    by (simp_all add: acme_manifest_def bindE_def)
  show ?thesis
    by (simp add: check_repo_def try_repo_def try_repo_with_def fx_env_simps fx_full_name fx_fetch_acme
          fx_acme_accepted fx_acme_entry n accepted_def console_log_def)
qed

lemma fx_check_bare_not_found:
  "check_repo (fx_env (fx_net not_found)) bare_repo s plugins =
     (Inr plugins,
      s\<lparr>requests := requests s @ [fx_manifest_request (str ''acme/no-manifest'')],
        console := console s @ [Checking (str ''acme/no-manifest''), NoPluginJson]\<rparr>)"
  by (simp add: check_repo_def try_repo_def try_repo_with_def fetchPluginManifest_def fx_env_simps fx_full_name
        fx_manifest_path httpsGet_def fx_manifest_options fx_net_simps fx_accepted not_found_def
        console_log_def)

lemma fx_collect:
  "collect_plugins (fx_env (fx_net not_found)) initial =
     (Inr [acme_entry],
      \<lparr>requests = [fx_search, fx_manifest_request (str ''acme/no-manifest''),
                   fx_manifest_request (str ''acme/my-plugin'')],
       console =
         [Searching (str ''audion-plugins''), Found (str ''2''),
          Checking (str ''acme/no-manifest''), NoPluginJson,
          Checking (str ''acme/my-plugin''), ValidPlugin (str ''My Plugin'')],
       fs_calls = []\<rparr>)"
  by (simp add: collect_plugins_def fx_search_repos fx_check_bare_not_found fx_check_acme
        initial_def)

lemma fx_registry: "registry_object (fx_env net) [acme_entry] = acme_registry"
  "registry_object (fx_env net) [] = empty_registry"
  by (simp_all add: registry_object_def acme_registry_def empty_registry_def fx_env_simps)

lemma fx_build: "buildRegistry (fx_env (fx_net not_found)) initial = (Inr acme_registry, fx_final)"
  by (simp add: buildRegistry_def fx_collect fx_registry write_registry_def write_file_def
        fs_do_def console_log_def fx_env_simps fx_final_def)

section \<open>The claims about the validator\<close>

text \<open>
  C5, as the code has it. A document that passes the first check, has a truthy value
  under each of the six required keys and a type other than js and wasm is rejected with
  \<^verbatim>\<open>Invalid type: s\<close>, \<open>s\<close> the text of the type's value, whatever its permissions,
  its category and its other fields are. (The required fields are checked before the
  type: a document that lacks one of them is rejected for that field.)
\<close>

theorem validateManifest_invalid_type:
  assumes "truthy manifest" and "typeof manifest = str ''object''"
    and "\<forall>f \<in> set REQUIRED_FIELDS. truthy (js_get manifest f)"
    and "\<not> js_includes VALID_TYPES (js_get manifest (str ''type''))"
    and "to_str ns (js_get manifest (str ''type'')) = Inr s"
  shows "validateManifest ns manifest = Inr (rejected (str ''Invalid type: '' @ s))"
proof -
  from assms(3) have "find (\<lambda>f. \<not> truthy (js_get manifest f)) REQUIRED_FIELDS = None"
    by (simp add: find_None_iff)
  with assms(4,5) show ?thesis
    by (simp add: validateManifest_object [OF assms(1,2)] bindE_def)
qed

theorem validateManifest_invalid_type_witness:
  "truthy native_plugin \<and> typeof native_plugin = str ''object'' \<and>
   list_all (\<lambda>f. truthy (js_get native_plugin f)) REQUIRED_FIELDS \<and>
   \<not> js_includes VALID_TYPES (js_get native_plugin (str ''type'')) \<and>
   to_str fx_num (js_get native_plugin (str ''type'')) = Inr (str ''native'') \<and>
   validateManifest fx_num native_plugin = Inr (rejected (str ''Invalid type: native''))"
proof -
  have h: "truthy native_plugin" "typeof native_plugin = str ''object''"
    "\<forall>f \<in> set REQUIRED_FIELDS. truthy (js_get native_plugin f)"
    "\<not> js_includes VALID_TYPES (js_get native_plugin (str ''type''))"
    "to_str fx_num (js_get native_plugin (str ''type'')) = Inr (str ''native'')"
    by (simp_all add: native_plugin_def REQUIRED_FIELDS_def VALID_TYPES_def js_get_def)
  from validateManifest_invalid_type [OF h] h show ?thesis by (simp add: list_all_iff)
qed

text \<open>
  C5 as stated fails: a manifest whose type is \<^verbatim>\<open>native\<close> and that has no name is
  rejected for the missing name, not for its type.
\<close>

theorem validateManifest_invalid_type_counterexample:
  "js_member native_unnamed (str ''type'') = Inr (JStr (str ''native'')) \<and>
   \<not> js_includes VALID_TYPES (JStr (str ''native'')) \<and>
   validateManifest fx_num native_unnamed = Inr (rejected (str ''Missing required field: name'')) \<and>
   validateManifest fx_num native_unnamed \<noteq> Inr (rejected (str ''Invalid type: native''))"
  by (simp add: native_unnamed_def VALID_TYPES_def validateManifest_def REQUIRED_FIELDS_def
        bindE_def rejected_def)

text \<open>
  C6, as the code has it. For a document that passes the first four checks: when the
  value of category is truthy, is not one of audio, ui, lyrics, library, utility and has
  a text \<open>s\<close>, the document is rejected with \<^verbatim>\<open>Invalid category: s\<close>; when the value
  is one of the five, or is falsy (the key missing, or present with an empty string,
  \<^verbatim>\<open>null\<close>, \<^verbatim>\<open>false\<close> or zero), the document is accepted.
\<close>

theorem validateManifest_category:
  assumes "truthy manifest" and "typeof manifest = str ''object''"
    and "\<forall>f \<in> set REQUIRED_FIELDS. truthy (js_get manifest f)"
    and "js_includes VALID_TYPES (js_get manifest (str ''type''))"
    and "js_isArray (js_get manifest (str ''permissions''))"
  shows "(truthy (js_get manifest (str ''category'')) \<and>
          \<not> js_includes VALID_CATEGORIES (js_get manifest (str ''category'')) \<and>
          to_str ns (js_get manifest (str ''category'')) = Inr s \<longrightarrow>
            validateManifest ns manifest = Inr (rejected (str ''Invalid category: '' @ s))) \<and>
         (\<not> truthy (js_get manifest (str ''category'')) \<or>
          js_includes VALID_CATEGORIES (js_get manifest (str ''category'')) \<longrightarrow>
            validateManifest ns manifest = Inr accepted)"
proof -
  from assms(3) have "find (\<lambda>f. \<not> truthy (js_get manifest f)) REQUIRED_FIELDS = None"
    by (simp add: find_None_iff)
  with assms(4,5) show ?thesis
    by (auto simp: validateManifest_object [OF assms(1,2)] bindE_def)
qed

theorem validateManifest_category_witness:
  "validateManifest fx_num (with_category (JStr (str ''games''))) =
     Inr (rejected (str ''Invalid category: games'')) \<and>
   validateManifest fx_num (with_category (JStr (str ''lyrics''))) = Inr accepted \<and>
   validateManifest fx_num (with_category JNull) = Inr accepted"
proof -
  have h: "truthy (with_category c)" "typeof (with_category c) = str ''object''"
    "\<forall>f \<in> set REQUIRED_FIELDS. truthy (js_get (with_category c) f)"
    "js_includes VALID_TYPES (js_get (with_category c) (str ''type''))"
    "js_isArray (js_get (with_category c) (str ''permissions''))" for c
    by (simp_all add: with_category_def REQUIRED_FIELDS_def VALID_TYPES_def js_get_def)
  have c: "js_get (with_category c) (str ''category'') = c" for c
    by (simp add: with_category_def js_get_def)
  from validateManifest_category [OF h, of "JStr (str ''games'')" fx_num "str ''games''"]
    validateManifest_category [OF h, of "JStr (str ''lyrics'')" fx_num]
    validateManifest_category [OF h, of JNull fx_num]
  show ?thesis by (simp add: c VALID_CATEGORIES_def)
qed

text \<open>
  C6 as stated fails: with the key category present and holding the empty string, which
  is not one of the five categories, the manifest is accepted.
\<close>

theorem validateManifest_category_counterexample:
  "js_member (with_category (JStr [])) (str ''category'') = Inr (JStr []) \<and>
   \<not> js_includes VALID_CATEGORIES (JStr []) \<and>
   validateManifest fx_num (with_category (JStr [])) = Inr accepted"
  by (simp add: with_category_def VALID_CATEGORIES_def VALID_TYPES_def validateManifest_def
        REQUIRED_FIELDS_def bindE_def)

text \<open>
  C7, as the code has it. A document that passes the first check (an object or an
  array) and in which at least one required key is missing or holds a falsy value
  (\<^verbatim>\<open>undefined\<close>, \<^verbatim>\<open>null\<close>, \<^verbatim>\<open>false\<close>, zero, not-a-number or the empty string)
  is rejected with \<^verbatim>\<open>Missing required field: g\<close>, where \<open>g\<close> is the first such key
  in the order name, version, author, type, entry, permissions.
\<close>

theorem validateManifest_first_missing_field:
  assumes "truthy manifest" and "typeof manifest = str ''object''"
    and "f \<in> set REQUIRED_FIELDS" and "\<not> truthy (js_get manifest f)"
  shows "\<exists>g. find (\<lambda>f. \<not> truthy (js_get manifest f)) REQUIRED_FIELDS = Some g \<and>
             validateManifest ns manifest = Inr (rejected (str ''Missing required field: '' @ g))"
proof -
  from assms(3,4) have "find (\<lambda>f. \<not> truthy (js_get manifest f)) REQUIRED_FIELDS \<noteq> None"
    by (auto simp: find_None_iff)
  then obtain g where g: "find (\<lambda>f. \<not> truthy (js_get manifest f)) REQUIRED_FIELDS = Some g"
    by blast
  then show ?thesis by (simp add: validateManifest_object [OF assms(1,2)])
qed

theorem validateManifest_first_missing_field_witness:
  "truthy two_missing \<and> typeof two_missing = str ''object'' \<and> str ''entry'' \<in> set REQUIRED_FIELDS \<and>
   \<not> truthy (js_get two_missing (str ''entry'')) \<and> \<not> truthy (js_get two_missing (str ''version'')) \<and>
   validateManifest fx_num two_missing = Inr (rejected (str ''Missing required field: version''))"
proof -
  have h: "truthy two_missing" "typeof two_missing = str ''object''" "str ''entry'' \<in> set REQUIRED_FIELDS"
    "\<not> truthy (js_get two_missing (str ''entry''))"
    by (simp_all add: two_missing_def REQUIRED_FIELDS_def js_get_def)
  have f: "find (\<lambda>f. \<not> truthy (js_get two_missing f)) REQUIRED_FIELDS = Some (str ''version'')"
    by (simp add: two_missing_def REQUIRED_FIELDS_def js_get_def)
  from validateManifest_first_missing_field [OF h, of fx_num] f h show ?thesis
    by (simp add: two_missing_def js_get_def)
qed

text \<open>
  C7 as stated fails: a manifest whose permissions are the empty array holds an empty
  value under a required key, and it is accepted. The empty array is not falsy.
\<close>

theorem validateManifest_first_missing_field_counterexample:
  "str ''permissions'' \<in> set REQUIRED_FIELDS \<and>
   js_member no_permissions (str ''permissions'') = Inr (JArr []) \<and>
   truthy (JArr []) \<and>
   validateManifest fx_num no_permissions = Inr accepted"
  by (simp add: fx_accepted_more) (simp add: no_permissions_def REQUIRED_FIELDS_def)

section \<open>The claims about the fetcher\<close>




text \<open>
  C2, as the code has it. When the request for the manifest of a repository is sent and
  ends with the error event, \<^verbatim>\<open>fetchPluginManifest\<close> has sent that one request and
  rejects with the error: there is no second attempt, and the error crosses the
  fetcher's boundary. The \<^verbatim>\<open>catch\<close> of the assembler's loop logs it; the plugins are
  as before and the turn ends without an error.
\<close>

theorem fetchPluginManifest_single_attempt:
  assumes "manifest_path (Number_toString e) repo = Inr p"
    and "request_accepted (manifest_options p)"
    and "https_request e (requests s) (manifest_options p) = ErrorEvent msg"
  shows "fetchPluginManifest e repo s =
           (Inl (RequestError msg), s\<lparr>requests := requests s @ [manifest_options p]\<rparr>) \<and>
         (\<exists>full_name.
            bindE (js_member repo (str ''full_name'')) (to_str (Number_toString e)) =
              Inr full_name \<and>
            check_repo e repo s plugins =
              (Inr plugins,
               s\<lparr>requests := requests s @ [manifest_options p],
                 console := console s @ [Checking full_name, ErrorLine (RequestError msg)]\<rparr>))"
proof -
  from manifest_path_full_name [OF assms(1)] obtain full_name where
    n: "bindE (js_member repo (str ''full_name'')) (to_str (Number_toString e)) = Inr full_name"
    by blast
  let ?s = "console_log (Checking full_name) s"
  have a: "fetchPluginManifest e repo ?s =
      (Inl (RequestError msg), ?s\<lparr>requests := requests ?s @ [manifest_options p]\<rparr>)"
    using assms(3) by (simp add: fetchPluginManifest_request [OF assms(1,2)] console_log_requests)
  have "check_repo e repo s plugins =
      (Inr plugins, console_log (ErrorLine (RequestError msg))
         (?s\<lparr>requests := requests ?s @ [manifest_options p]\<rparr>))"
    using n by (simp add: check_repo_def try_repo_fetch_error [OF a])
  then have "check_repo e repo s plugins =
      (Inr plugins,
       s\<lparr>requests := requests s @ [manifest_options p],
         console := console s @ [Checking full_name, ErrorLine (RequestError msg)]\<rparr>)"
    by (simp add: console_log_def)
  with n show ?thesis
    using assms(3) by (simp add: fetchPluginManifest_request [OF assms(1,2)])
qed

theorem fetchPluginManifest_single_attempt_witness:
  "manifest_path (Number_toString (fx_env (fx_net (ErrorEvent (str ''read ECONNRESET''))))) bare_repo =
     Inr (str ''/acme/no-manifest/main/plugin.json'') \<and>
   request_accepted (manifest_options (str ''/acme/no-manifest/main/plugin.json'')) \<and>
   https_request (fx_env (fx_net (ErrorEvent (str ''read ECONNRESET'')))) (requests initial)
     (manifest_options (str ''/acme/no-manifest/main/plugin.json'')) =
     ErrorEvent (str ''read ECONNRESET'') \<and>
   fetchPluginManifest (fx_env (fx_net (ErrorEvent (str ''read ECONNRESET'')))) bare_repo initial =
     (Inl (RequestError (str ''read ECONNRESET'')),
      \<lparr>requests = [fx_manifest_request (str ''acme/no-manifest'')], console = [],
       fs_calls = []\<rparr>) \<and>
   check_repo (fx_env (fx_net (ErrorEvent (str ''read ECONNRESET'')))) bare_repo initial [] =
     (Inr [],
      \<lparr>requests = [fx_manifest_request (str ''acme/no-manifest'')],
       console = [Checking (str ''acme/no-manifest''),
                  ErrorLine (RequestError (str ''read ECONNRESET''))],
       fs_calls = []\<rparr>)"
proof -
  let ?e = "fx_env (fx_net (ErrorEvent (str ''read ECONNRESET'')))"
  have h1: "manifest_path (Number_toString ?e) bare_repo =
      Inr (str ''/acme/no-manifest/main/plugin.json'')"
    by (simp add: fx_env_simps fx_manifest_path)
  have h2: "request_accepted (manifest_options (str ''/acme/no-manifest/main/plugin.json''))"
    by (simp add: fx_manifest_options fx_accepted)
  have h3: "https_request ?e (requests initial)
      (manifest_options (str ''/acme/no-manifest/main/plugin.json'')) =
      ErrorEvent (str ''read ECONNRESET'')"
    by (simp add: fx_env_simps fx_manifest_options fx_net_simps)
  from fetchPluginManifest_single_attempt [OF h1 h2 h3, of "[]"] h1 h2 h3 show ?thesis
    by (simp add: fx_manifest_options initial_def fx_env_simps fx_full_name)
qed

text \<open>
  C2 as stated fails: the first request for the manifest is reset, a second one would be
  served, and the build sends none: it has made two requests, one of them for the
  manifest, logged the error and written a registry without the plugin. The rejection of
  \<^verbatim>\<open>fetchPluginManifest\<close> is the error itself.
\<close>

theorem fetchPluginManifest_single_attempt_counterexample:
  "buildRegistry (fx_env flaky_net) initial =
     (Inr empty_registry,
      \<lparr>requests = [fx_search, fx_manifest_request (str ''acme/my-plugin'')],
       console =
         [Searching (str ''audion-plugins''), Found (str ''1''),
          Checking (str ''acme/my-plugin''),
          ErrorLine (RequestError (str ''read ECONNRESET'')),
          Built 0, WrittenTo (str ''/work/registry/main/registry.json'')],
       fs_calls =
         [ExistsSync (str ''/work/registry/main''),
          MkdirSync (str ''/work/registry/main''),
          WriteFileSync (str ''/work/registry/main/registry.json'') empty_registry]\<rparr>) \<and>
   flaky_net [fx_search, fx_manifest_request (str ''acme/my-plugin'')]
     (fx_manifest_request (str ''acme/my-plugin'')) = Response 200 (Parsed acme_manifest) \<and>
   fst (fetchPluginManifest (fx_env flaky_net) acme_repo
          \<lparr>requests = [fx_search], console = [], fs_calls = []\<rparr>) =
     Inl (RequestError (str ''read ECONNRESET''))"
proof -
  have a: "flaky_net h fx_search = Response 200 (listing 1 [acme_repo])" for h
    by (simp add: flaky_net_def fx_search_def)
  have b: "flaky_net [fx_search] (fx_manifest_request (str ''acme/my-plugin'')) =
      ErrorEvent (str ''read ECONNRESET'')"
    by (simp add: flaky_net_def fx_search_def fx_manifest_request_def)
  have c: "flaky_net [fx_search, fx_manifest_request (str ''acme/my-plugin'')]
     (fx_manifest_request (str ''acme/my-plugin'')) = Response 200 (Parsed acme_manifest)"
    by (simp add: flaky_net_def fx_search_def fx_manifest_request_def)
  have s: "searchRepos (fx_env flaky_net) initial =
     (Inr (JArr [acme_repo]),
      \<lparr>requests = [fx_search],
       console = [Searching (str ''audion-plugins''), Found (str ''1'')],
       fs_calls = []\<rparr>)"
    by (simp add: searchRepos_def httpsGet_def fx_search_options fx_env_simps a fx_listing
        fx_accepted console_log_def js_or_def fx_num_def TOPIC_def initial_def)
  have f: "fetchPluginManifest (fx_env flaky_net) acme_repo
      \<lparr>requests = [fx_search], console = cs, fs_calls = []\<rparr> =
      (Inl (RequestError (str ''read ECONNRESET'')),
       \<lparr>requests = [fx_search, fx_manifest_request (str ''acme/my-plugin'')], console = cs,
        fs_calls = []\<rparr>)" for cs
    by (simp add: fetchPluginManifest_def fx_env_simps fx_manifest_path httpsGet_def
        fx_manifest_options fx_accepted b)
  have k: "check_repo (fx_env flaky_net) acme_repo
      \<lparr>requests = [fx_search],
       console = [Searching (str ''audion-plugins''), Found (str ''1'')],
       fs_calls = []\<rparr> [] =
      (Inr [],
       \<lparr>requests = [fx_search, fx_manifest_request (str ''acme/my-plugin'')],
        console = [Searching (str ''audion-plugins''), Found (str ''1''),
                   Checking (str ''acme/my-plugin''),
                   ErrorLine (RequestError (str ''read ECONNRESET''))],
        fs_calls = []\<rparr>)"
    by (simp add: check_repo_def try_repo_def try_repo_with_def fx_env_simps fx_full_name console_log_def f)
  have "collect_plugins (fx_env flaky_net) initial =
      (Inr [],
       \<lparr>requests = [fx_search, fx_manifest_request (str ''acme/my-plugin'')],
        console = [Searching (str ''audion-plugins''), Found (str ''1''),
                   Checking (str ''acme/my-plugin''),
                   ErrorLine (RequestError (str ''read ECONNRESET''))],
        fs_calls = []\<rparr>)"
    by (simp add: collect_plugins_def s k)
  then have "buildRegistry (fx_env flaky_net) initial =
     (Inr empty_registry,
      \<lparr>requests = [fx_search, fx_manifest_request (str ''acme/my-plugin'')],
       console =
         [Searching (str ''audion-plugins''), Found (str ''1''),
          Checking (str ''acme/my-plugin''),
          ErrorLine (RequestError (str ''read ECONNRESET'')),
          Built 0, WrittenTo (str ''/work/registry/main/registry.json'')],
       fs_calls =
         [ExistsSync (str ''/work/registry/main''),
          MkdirSync (str ''/work/registry/main''),
          WriteFileSync (str ''/work/registry/main/registry.json'') empty_registry]\<rparr>)"
    by (simp add: buildRegistry_def fx_registry write_registry_def write_file_def fs_do_def
        console_log_def fx_env_simps)
  with c f [of "[]"] show ?thesis by simp
qed

section \<open>The claims about the assembler\<close>

text \<open>
  C3. When \<^verbatim>\<open>buildRegistry\<close> returns a registry, its \<^verbatim>\<open>plugins\<close> are such that
  each entry was built in the turn of the loop for one of the discovered repositories,
  from the manifest that the fetch of that turn returned, and \<^verbatim>\<open>validateManifest\<close>
  accepted this manifest. (\<open>before\<close> are the repositories of the turns before it, and
  \<open>s0\<close> the effects when it starts.)
\<close>

theorem buildRegistry_entries_accepted:
  assumes "buildRegistry e s = (Inr registry, s')"
  shows "\<exists>repos s1 items plugins.
           searchRepos e s = (Inr repos, s1) \<and> js_iterate repos = Inr items \<and>
           registry = registry_object e plugins \<and>
           js_member registry (str ''plugins'') = Inr (JArr plugins) \<and>
           (\<forall>p \<in> set plugins. \<exists>before repo after plugins0 s0 full_name manifest s2.
              items = before @ repo # after \<and>
              for_repos e before s1 [] = (Inr plugins0, s0) \<and>
              bindE (js_member repo (str ''full_name'')) (to_str (Number_toString e)) =
                Inr full_name \<and>
              fetchPluginManifest e repo (console_log (Checking full_name) s0) =
                (Inr manifest, s2) \<and>
              validateManifest (Number_toString e) manifest = Inr accepted \<and>
              plugin_entry (Number_toString e) repo manifest = Inr p)"
proof -
  obtain c s2 where cp: "collect_plugins e s = (c, s2)"
    by (cases "collect_plugins e s") auto
  with assms obtain plugins where c: "c = Inr plugins"
    by (cases c) (simp_all add: buildRegistry_def)
  from assms cp c have reg: "registry = registry_object e plugins"
    by (auto simp: buildRegistry_def split: prod.splits option.splits)
  obtain r s1 where sr: "searchRepos e s = (r, s1)" by (cases "searchRepos e s") auto
  with cp c obtain repos where r: "r = Inr repos"
    by (cases r) (simp_all add: collect_plugins_def)
  from cp c sr r obtain items where it: "js_iterate repos = Inr items"
    by (cases "js_iterate repos") (simp_all add: collect_plugins_def)
  from cp c sr r it have fr: "for_repos e items s1 [] = (Inr plugins, s2)"
    by (simp add: collect_plugins_def)
  from for_repos_plugins [OF fr] have
    "\<forall>p \<in> set plugins. \<exists>before repo after plugins0 s0 full_name manifest s2.
        items = before @ repo # after \<and>
        for_repos e before s1 [] = (Inr plugins0, s0) \<and>
        bindE (js_member repo (str ''full_name'')) (to_str (Number_toString e)) =
          Inr full_name \<and>
        fetchPluginManifest e repo (console_log (Checking full_name) s0) = (Inr manifest, s2) \<and>
        validateManifest (Number_toString e) manifest = Inr accepted \<and>
        plugin_entry (Number_toString e) repo manifest = Inr p"
    by auto
  moreover have "js_member registry (str ''plugins'') = Inr (JArr plugins)"
    by (simp add: reg registry_object_def)
  ultimately show ?thesis using sr r it reg by blast
qed

theorem buildRegistry_entries_accepted_witness:
  "buildRegistry (fx_env (fx_net not_found)) initial = (Inr acme_registry, fx_final) \<and>
   acme_registry = registry_object (fx_env (fx_net not_found)) [acme_entry] \<and>
   (\<exists>repos s1 items plugins.
      searchRepos (fx_env (fx_net not_found)) initial = (Inr repos, s1) \<and>
      js_iterate repos = Inr items \<and>
      acme_registry = registry_object (fx_env (fx_net not_found)) plugins \<and>
      js_member acme_registry (str ''plugins'') = Inr (JArr plugins) \<and>
      (\<forall>p \<in> set plugins. \<exists>before repo after plugins0 s0 full_name manifest s2.
         items = before @ repo # after \<and>
         for_repos (fx_env (fx_net not_found)) before s1 [] = (Inr plugins0, s0) \<and>
         bindE (js_member repo (str ''full_name''))
           (to_str (Number_toString (fx_env (fx_net not_found)))) = Inr full_name \<and>
         fetchPluginManifest (fx_env (fx_net not_found)) repo (console_log (Checking full_name) s0) =
           (Inr manifest, s2) \<and>
         validateManifest (Number_toString (fx_env (fx_net not_found))) manifest = Inr accepted \<and>
         plugin_entry (Number_toString (fx_env (fx_net not_found))) repo manifest = Inr p)) \<and>
   validateManifest fx_num acme_manifest = Inr accepted \<and>
   plugin_entry fx_num acme_repo acme_manifest = Inr acme_entry"
  using buildRegistry_entries_accepted [OF fx_build] fx_build fx_acme_accepted fx_acme_entry
  by (simp add: fx_registry)

text \<open>
  C4. A repository whose fetch, in its turn of the loop, gives \<^verbatim>\<open>null\<close> (a status
  other than 200: not found) or throws (\<open>err\<close>: the request failed, or could not be made)
  adds no entry: the turn ends without an error, with the plugins it started with, and
  the loop goes on with the repositories after it. When the remote side answers a
  request the same way whatever was requested before, the plugins at the end are those
  of a loop that never saw this repository. (The turn reaches the fetch after logging
  the repository's name, \<open>full_name\<close>.)
\<close>

theorem for_repos_skips_failed_fetch:
  assumes "bindE (js_member repo (str ''full_name'')) (to_str (Number_toString e)) = Inr full_name"
    and "fetchPluginManifest e repo (console_log (Checking full_name) s) = (r, s1)"
    and "r = Inr JNull \<or> r = Inl err"
  shows "check_repo e repo s plugins =
           (Inr plugins, console_log (if r = Inr JNull then NoPluginJson else ErrorLine err) s1) \<and>
         for_repos e (repo # rest) s plugins =
           for_repos e rest (console_log (if r = Inr JNull then NoPluginJson else ErrorLine err) s1)
             plugins \<and>
         ((\<forall>h h' q. https_request e h q = https_request e h' q) \<longrightarrow>
            fst (for_repos e (repo # rest) s plugins) = fst (for_repos e rest s plugins))"
proof -
  let ?s = "console_log (if r = Inr JNull then NoPluginJson else ErrorLine err) s1"
  have c: "check_repo e repo s plugins = (Inr plugins, ?s)"
  proof (cases "r = Inr JNull")
    case True
    with assms(2) have "try_repo e repo (console_log (Checking full_name) s) plugins =
        (None, console_log NoPluginJson s1, plugins)"
      by (simp add: try_repo_no_manifest)
    with True assms(1) show ?thesis by (simp add: check_repo_def)
  next
    case False
    with assms(3) have r: "r = Inl err" by simp
    with assms(2) have "try_repo e repo (console_log (Checking full_name) s) plugins =
        (Some err, s1, plugins)"
      by (simp add: try_repo_fetch_error)
    with r assms(1) show ?thesis by (simp add: check_repo_def)
  qed
  then have f: "for_repos e (repo # rest) s plugins = for_repos e rest ?s plugins" by simp
  have "fst (for_repos e (repo # rest) s plugins) = fst (for_repos e rest s plugins)"
    if "\<forall>h h' q. https_request e h q = https_request e h' q"
    using for_repos_stateless [OF that, of rest ?s plugins s] f by simp
  with c f show ?thesis by blast
qed

theorem for_repos_skips_failed_fetch_witness:
  "fetchPluginManifest (fx_env (fx_net not_found)) bare_repo
     (console_log (Checking (str ''acme/no-manifest'')) initial) =
     (Inr JNull,
      \<lparr>requests = [fx_manifest_request (str ''acme/no-manifest'')],
       console = [Checking (str ''acme/no-manifest'')], fs_calls = []\<rparr>) \<and>
   check_repo (fx_env (fx_net not_found)) bare_repo initial [] =
     (Inr [],
      \<lparr>requests = [fx_manifest_request (str ''acme/no-manifest'')],
       console = [Checking (str ''acme/no-manifest''), NoPluginJson], fs_calls = []\<rparr>) \<and>
   for_repos (fx_env (fx_net not_found)) [bare_repo, acme_repo] initial [] =
     (Inr [acme_entry],
      \<lparr>requests = [fx_manifest_request (str ''acme/no-manifest''),
                   fx_manifest_request (str ''acme/my-plugin'')],
       console = [Checking (str ''acme/no-manifest''), NoPluginJson,
                  Checking (str ''acme/my-plugin''), ValidPlugin (str ''My Plugin'')],
       fs_calls = []\<rparr>) \<and>
   fst (for_repos (fx_env (fx_net not_found)) [bare_repo, acme_repo] initial []) =
   fst (for_repos (fx_env (fx_net not_found)) [acme_repo] initial [])"
proof -
  let ?e = "fx_env (fx_net not_found)"
  let ?s1 = "\<lparr>requests = [fx_manifest_request (str ''acme/no-manifest'')],
       console = [Checking (str ''acme/no-manifest'')], fs_calls = []\<rparr>"
  have h1: "bindE (js_member bare_repo (str ''full_name'')) (to_str (Number_toString ?e)) =
      Inr (str ''acme/no-manifest'')"
    by (simp add: fx_env_simps fx_full_name)
  have h2: "fetchPluginManifest ?e bare_repo (console_log (Checking (str ''acme/no-manifest'')) initial) =
      (Inr JNull, ?s1)"
    by (simp add: fetchPluginManifest_def fx_env_simps fx_manifest_path httpsGet_def
        fx_manifest_options fx_net_simps fx_accepted not_found_def console_log_def initial_def)
  have h3: "Inr JNull = Inr JNull \<or> Inr JNull = Inl TypeError" by simp
  have st: "\<forall>h h' q. https_request ?e h q = https_request ?e h' q"
    by (simp add: fx_env_simps fx_net_def)
  from for_repos_skips_failed_fetch [OF h1 h2 h3, of "[]" "[acme_repo]"] h2 st show ?thesis
    by (simp add: fx_check_acme console_log_def)
qed

text \<open>
  C10. A manifest request that is sent and answered with status 200 and a body that is
  falsy once decoded (\<^verbatim>\<open>null\<close>, \<^verbatim>\<open>false\<close>, \<^verbatim>\<open>0\<close>, the empty string, or an empty
  body, which does not parse) ends the repository's turn as a 404 does: one request, the
  line \<^verbatim>\<open>No plugin.json found\<close> (and not \<^verbatim>\<open>Invalid manifest: Invalid JSON\<close>, the
  verdict of the validator on such a document), and the plugins as before. The body of
  \<^verbatim>\<open>try\<close> ends the same way whatever validator it is given: it does not call it.
\<close>

theorem check_repo_falsy_body:
  assumes "manifest_path (Number_toString e) repo = Inr p"
    and "request_accepted (manifest_options p)"
    and "https_request e (requests s) (manifest_options p) = Response 200 b"
    and "\<not> truthy (parse_or_text b)"
  shows "\<exists>full_name.
           bindE (js_member repo (str ''full_name'')) (to_str (Number_toString e)) =
             Inr full_name \<and>
           check_repo e repo s plugins =
             (Inr plugins,
              s\<lparr>requests := requests s @ [manifest_options p],
                console := console s @ [Checking full_name, NoPluginJson]\<rparr>) \<and>
           check_repo e repo s plugins =
             check_repo
               (e\<lparr>https_request := \<lambda>h r. Response 404 (Unparsable (str ''404: Not Found''))\<rparr>)
               repo s plugins \<and>
           (\<forall>validate.
              try_repo_with validate e repo (console_log (Checking full_name) s) plugins =
              try_repo e repo (console_log (Checking full_name) s) plugins)"
proof -
  from manifest_path_full_name [OF assms(1)] obtain full_name where
    n: "bindE (js_member repo (str ''full_name'')) (to_str (Number_toString e)) = Inr full_name"
    by blast
  let ?s = "console_log (Checking full_name) s"
  let ?e = "e\<lparr>https_request := \<lambda>h r. Response 404 (Unparsable (str ''404: Not Found''))\<rparr>"
  let ?s1 = "?s\<lparr>requests := requests ?s @ [manifest_options p]\<rparr>"
  have p': "manifest_path (Number_toString ?e) repo = Inr p" using assms(1) by simp
  have a: "fetchPluginManifest e repo ?s = (Inr (parse_or_text b), ?s1)"
    using assms(3) by (simp add: fetchPluginManifest_request [OF assms(1,2)] console_log_requests)
  have b: "fetchPluginManifest ?e repo ?s = (Inr JNull, ?s1)"
    by (simp add: fetchPluginManifest_request [OF p' assms(2)])
  have "check_repo e repo s plugins = (Inr plugins, console_log NoPluginJson ?s1)"
    using n assms(4) by (simp add: check_repo_def try_repo_no_manifest [OF a])
  moreover have "check_repo ?e repo s plugins = (Inr plugins, console_log NoPluginJson ?s1)"
    using n by (simp add: check_repo_def try_repo_no_manifest [OF b])
  ultimately have "check_repo e repo s plugins =
             (Inr plugins,
              s\<lparr>requests := requests s @ [manifest_options p],
                console := console s @ [Checking full_name, NoPluginJson]\<rparr>) \<and>
           check_repo e repo s plugins = check_repo ?e repo s plugins"
    by (simp add: console_log_def)
  moreover have "try_repo_with validate e repo ?s plugins = try_repo e repo ?s plugins"
    for validate
    using assms(4) by (simp add: try_repo_def try_repo_with_def a)
  ultimately show ?thesis using n by blast
qed

theorem check_repo_falsy_body_witness:
  "https_request (fx_env (fx_net (Response 200 (Parsed JNull)))) (requests initial)
     (manifest_options (str ''/acme/no-manifest/main/plugin.json'')) =
     Response 200 (Parsed JNull) \<and>
   truthy (parse_or_text (Parsed JNull)) = False \<and>
   check_repo (fx_env (fx_net (Response 200 (Parsed JNull)))) bare_repo initial [] =
     (Inr [],
      \<lparr>requests = [fx_manifest_request (str ''acme/no-manifest'')],
       console = [Checking (str ''acme/no-manifest''), NoPluginJson], fs_calls = []\<rparr>) \<and>
   https_request (fx_env (fx_net (Response 200 (Unparsable [])))) (requests initial)
     (manifest_options (str ''/acme/no-manifest/main/plugin.json'')) =
     Response 200 (Unparsable []) \<and>
   truthy (parse_or_text (Unparsable [])) = False \<and>
   check_repo (fx_env (fx_net (Response 200 (Unparsable [])))) bare_repo initial [] =
     (Inr [],
      \<lparr>requests = [fx_manifest_request (str ''acme/no-manifest'')],
       console = [Checking (str ''acme/no-manifest''), NoPluginJson], fs_calls = []\<rparr>) \<and>
   check_repo (fx_env (fx_net (Response 200 (Parsed JNull)))) bare_repo initial [] =
   check_repo (fx_env (fx_net not_found)) bare_repo initial []"
proof -
  have h1: "manifest_path (Number_toString (fx_env (fx_net r))) bare_repo =
      Inr (str ''/acme/no-manifest/main/plugin.json'')" for r
    by (simp add: fx_env_simps fx_manifest_path)
  have h2: "request_accepted (manifest_options (str ''/acme/no-manifest/main/plugin.json''))"
    by (simp add: fx_manifest_options fx_accepted)
  have h3: "https_request (fx_env (fx_net r)) (requests initial)
      (manifest_options (str ''/acme/no-manifest/main/plugin.json'')) = r" for r
    by (simp add: fx_env_simps fx_manifest_options fx_net_simps)
  have h4: "\<not> truthy (parse_or_text (Parsed JNull))" "\<not> truthy (parse_or_text (Unparsable []))"
    by simp_all
  from check_repo_falsy_body [OF h1 h2 h3 h4(1), of "[]"]
    check_repo_falsy_body [OF h1 h2 h3 h4(2), of "[]"] h3
  show ?thesis
    by (simp add: fx_manifest_options initial_def fx_env_simps fx_full_name
          fx_check_bare_not_found)
qed

section \<open>The claim about the writer\<close>

text \<open>
  C8, as the code has it. A build whose discovery or loop fails calls nothing of
  \<^verbatim>\<open>fs\<close>. Otherwise the build asks whether the output directory exists, creates it
  if it does not, and, unless creating it throws, writes the registry with one
  \<^verbatim>\<open>writeFileSync\<close> to the output path itself. These are all its calls: no other path
  is written and nothing is moved into place.
\<close>

theorem buildRegistry_direct_write:
  "fs_calls (snd (buildRegistry e s)) =
     fs_calls s @
     (case fst (collect_plugins e s) of
        Inl err \<Rightarrow> []
      | Inr plugins \<Rightarrow>
          ExistsSync (outputDir e) #
          (if fs_existsSync e (outputDir e)
           then [WriteFileSync (OUTPUT_PATH e) (registry_object e plugins)]
           else MkdirSync (outputDir e) #
             (if fs_mkdirSync e (outputDir e) = None
              then [WriteFileSync (OUTPUT_PATH e) (registry_object e plugins)]
              else [])))"
proof -
  obtain c s1 where cp: "collect_plugins e s = (c, s1)"
    by (cases "collect_plugins e s") auto
  with collect_plugins_fs [of e s] have s1: "fs_calls s1 = fs_calls s" by simp
  show ?thesis
  proof (cases c)
    case (Inl err)
    with cp s1 show ?thesis by (simp add: buildRegistry_def)
  next
    case (Inr plugins)
    with cp s1 show ?thesis
      by (auto simp: buildRegistry_def write_registry_def write_file_def fs_do_def
            console_log_def split: option.splits)
  qed
qed

theorem buildRegistry_direct_write_witness:
  "fst (collect_plugins (fx_env (fx_net not_found)) initial) = Inr [acme_entry] \<and>
   fs_calls (snd (buildRegistry (fx_env (fx_net not_found)) initial)) =
     [ExistsSync (outputDir (fx_env (fx_net not_found))),
      MkdirSync (outputDir (fx_env (fx_net not_found))),
      WriteFileSync (OUTPUT_PATH (fx_env (fx_net not_found)))
        (registry_object (fx_env (fx_net not_found)) [acme_entry])]"
  using buildRegistry_direct_write [of "fx_env (fx_net not_found)" initial]
  by (simp add: fx_collect fx_env_simps) (simp add: initial_def)

text \<open>
  C8 as stated fails: in the build of the scenario the calls of \<^verbatim>\<open>fs\<close> are these
  three, and the one that writes has the output path as its target. There is no
  temporary location and no move.
\<close>

theorem buildRegistry_direct_write_counterexample:
  "fs_calls (snd (buildRegistry (fx_env (fx_net not_found)) initial)) =
     [ExistsSync (str ''/work/registry/main''),
      MkdirSync (str ''/work/registry/main''),
      WriteFileSync (str ''/work/registry/main/registry.json'') acme_registry] \<and>
   OUTPUT_PATH (fx_env (fx_net not_found)) = str ''/work/registry/main/registry.json''"
  by (simp add: fx_build fx_final_def fx_env_simps)

section \<open>The claim about the entries\<close>

text \<open>
  C9, as the code has it. For an accepted manifest of a repository whose name and branch
  have a text, the entry exists, and each of license, homepage and description is the
  manifest's value when that value is truthy; when it is missing or falsy (an empty
  string, \<^verbatim>\<open>null\<close>, \<^verbatim>\<open>false\<close>, zero), the license is the \<^verbatim>\<open>spdx_id\<close> of the
  repository's license (\<^verbatim>\<open>undefined\<close> when the repository's license is \<^verbatim>\<open>null\<close> or
  missing), the homepage is the repository's URL and the description is the empty
  string.
\<close>

theorem plugin_entry_defaults:
  assumes "validateManifest ns manifest = Inr accepted" and "manifest_url ns repo = Inr u"
  shows "\<exists>entry. plugin_entry ns repo manifest = Inr entry \<and>
           js_get (js_get entry (str ''manifest'')) (str ''license'') =
             (if truthy (js_get manifest (str ''license'')) then js_get manifest (str ''license'')
              else if js_get repo (str ''license'') = JNull \<or>
                      js_get repo (str ''license'') = JUndefined
              then JUndefined
              else js_get (js_get repo (str ''license'')) (str ''spdx_id'')) \<and>
           js_get (js_get entry (str ''manifest'')) (str ''homepage'') =
             (if truthy (js_get manifest (str ''homepage'')) then js_get manifest (str ''homepage'')
              else js_get repo (str ''html_url'')) \<and>
           js_get (js_get entry (str ''manifest'')) (str ''description'') =
             (if truthy (js_get manifest (str ''description''))
              then js_get manifest (str ''description'')
              else JStr [])"
proof -
  from validateManifest_valid [OF assms(1)] have "truthy manifest" "typeof manifest = str ''object''"
    by (simp_all add: accepted_def)
  then have nn: "manifest \<noteq> JNull" "manifest \<noteq> JUndefined"
    using object_not_nullish by blast+
  show ?thesis
    unfolding plugin_entry_object [OF nn assms(2)]
    by (simp add: js_get_def js_or_def)
qed

theorem plugin_entry_defaults_witness:
  "validateManifest fx_num acme_manifest = Inr accepted \<and>
   validateManifest fx_num full_manifest = Inr accepted \<and>
   manifest_url fx_num acme_repo =
     Inr (str ''https://raw.githubusercontent.com/acme/my-plugin/main/plugin.json'') \<and>
   plugin_entry fx_num acme_repo acme_manifest = Inr acme_entry \<and>
   js_get (js_get acme_entry (str ''manifest'')) (str ''license'') = JStr (str ''MIT'') \<and>
   js_get (js_get acme_entry (str ''manifest'')) (str ''homepage'') =
     JStr (str ''https://github.com/acme/my-plugin'') \<and>
   js_get (js_get acme_entry (str ''manifest'')) (str ''description'') = JStr [] \<and>
   (\<exists>entry. plugin_entry fx_num acme_repo full_manifest = Inr entry \<and>
      js_get (js_get entry (str ''manifest'')) (str ''license'') = JStr (str ''Apache-2.0'') \<and>
      js_get (js_get entry (str ''manifest'')) (str ''homepage'') =
        JStr (str ''https://acme.example/plugin'') \<and>
      js_get (js_get entry (str ''manifest'')) (str ''description'') = JStr (str ''Shows lyrics''))"
proof -
  have g: "js_get acme_manifest (str ''license'') = JUndefined"
    "js_get acme_manifest (str ''homepage'') = JUndefined"
    "js_get acme_manifest (str ''description'') = JUndefined"
    "js_get full_manifest (str ''license'') = JStr (str ''Apache-2.0'')"
    "js_get full_manifest (str ''homepage'') = JStr (str ''https://acme.example/plugin'')"
    "js_get full_manifest (str ''description'') = JStr (str ''Shows lyrics'')"
    "js_get acme_repo (str ''license'') = JObj [(str ''spdx_id'', JStr (str ''MIT''))]"
    "js_get (JObj [(str ''spdx_id'', JStr (str ''MIT''))]) (str ''spdx_id'') = JStr (str ''MIT'')"
    "js_get acme_repo (str ''html_url'') = JStr (str ''https://github.com/acme/my-plugin'')"
    by (simp_all add: js_get_def acme_manifest_def full_manifest_def acme_repo_def)
  from plugin_entry_defaults [OF fx_acme_accepted fx_manifest_url] fx_acme_entry
  have a: "js_get (js_get acme_entry (str ''manifest'')) (str ''license'') = JStr (str ''MIT'')"
    "js_get (js_get acme_entry (str ''manifest'')) (str ''homepage'') =
       JStr (str ''https://github.com/acme/my-plugin'')"
    "js_get (js_get acme_entry (str ''manifest'')) (str ''description'') = JStr []"
    by (simp_all add: g)
  from plugin_entry_defaults [OF fx_accepted_more(2) fx_manifest_url]
  have b: "\<exists>entry. plugin_entry fx_num acme_repo full_manifest = Inr entry \<and>
      js_get (js_get entry (str ''manifest'')) (str ''license'') = JStr (str ''Apache-2.0'') \<and>
      js_get (js_get entry (str ''manifest'')) (str ''homepage'') =
        JStr (str ''https://acme.example/plugin'') \<and>
      js_get (js_get entry (str ''manifest'')) (str ''description'') = JStr (str ''Shows lyrics'')"
    by (simp add: g)
  from a b fx_acme_accepted fx_accepted_more(2) fx_manifest_url fx_acme_entry
  show ?thesis by blast
qed

text \<open>
  C9 as stated fails: a manifest that supplies a homepage, the empty string, is
  accepted, and the homepage of its entry is the repository's URL, not the value
  supplied.
\<close>

theorem plugin_entry_defaults_counterexample:
  "validateManifest fx_num blank_homepage = Inr accepted \<and>
   js_member blank_homepage (str ''homepage'') = Inr (JStr []) \<and>
   plugin_entry fx_num acme_repo blank_homepage = Inr acme_entry \<and>
   js_get (js_get acme_entry (str ''manifest'')) (str ''homepage'') =
     JStr (str ''https://github.com/acme/my-plugin'')"
proof -
  have nn: "blank_homepage \<noteq> JNull" "blank_homepage \<noteq> JUndefined"
    by (simp_all add: blank_homepage_def)
  have "plugin_entry fx_num acme_repo blank_homepage = Inr acme_entry"
    using plugin_entry_object [OF nn fx_manifest_url]
    by (simp add: acme_entry_def blank_homepage_def acme_repo_def js_get_def js_or_def)
  then show ?thesis
    by (simp add: fx_accepted_more) (simp add: blank_homepage_def acme_entry_def js_get_def)
qed

end
